theory Spec2Isabelle
  imports Main "HOL-Library.AList" "HOL-Library.Sublist"
begin

section \<open>Data model\<close>

text \<open>
  The store of \<^verbatim>\<open>createDbStoreCreator\<close> keeps one \<^verbatim>\<open>NoteStorage\<close> per storage id.
  Documents are records; the fields no operation of the store reads (timestamps, revisions)
  are left out. A JavaScript object used as a dictionary (\<^verbatim>\<open>ObjectMap<T>\<close>) is an
  association list, in the insertion order of its keys, which is the order of
  \<^verbatim>\<open>Object.keys\<close>. A \<^verbatim>\<open>Set<string>\<close> is a set of strings.
\<close>

type_synonym 'v ObjectMap = "(string \<times> 'v) list"

record NoteDoc =
  note_id :: string
  title :: string
  content :: string
  tags :: "string list"
  folderPathname :: string
  trashed :: bool
  data :: string

record PopulatedNoteDoc = NoteDoc +
  note_storageId :: string

text \<open>\<^verbatim>\<open>Partial<NoteDocEditibleProps>\<close>: every field may be absent.\<close>

record NoteDocEditibleProps =
  p_title :: "string option"
  p_content :: "string option"
  p_tags :: "string list option"
  p_folderPathname :: "string option"
  p_data :: "string option"

text \<open>
  A folder or tag document of the document store. The store spreads documents it has just
  fetched (\<^verbatim>\<open>{...(await storage.db.getFolder(p)!), pathname: p, noteIdSet: ...}\<close>), and
  spreading \<^verbatim>\<open>undefined\<close> yields an entry without \<^verbatim>\<open>_id\<close>, so the id is optional in
  the entry. The tag documents' \<^verbatim>\<open>name\<close> is optional for the same reason: the entries
  built by \<^verbatim>\<open>createNote\<close> carry whatever name the fetched document has.
\<close>

record FolderDoc =
  folder_id :: "string option"
  folder_pathname :: string

record PopulatedFolderDoc = FolderDoc +
  noteIdSet :: "string set"

record TagDoc =
  tag_id :: "string option"
  tag_name :: "string option"

record PopulatedTagDoc = TagDoc +
  tag_noteIdSet :: "string set"

record CloudNoteStorageData =
  cloud_id :: nat
  cloud_name :: string
  syncedAt :: "nat option"

text \<open>
  \<^verbatim>\<open>folderMap\<close> values are optional: \<^verbatim>\<open>trashNote\<close> assigns a variable of type
  \<^verbatim>\<open>PopulatedFolderDoc | undefined\<close> to a key, so a key can be bound to \<^verbatim>\<open>undefined\<close>
  (\<open>None\<close>). \<^verbatim>\<open>sync\<close> and \<^verbatim>\<open>syncTimer\<close> hold the handle of the running replication and
  of the armed timer.
\<close>

record NoteStorage =
  storage_id :: string
  storage_name :: string
  cloudStorage :: "CloudNoteStorageData option"
  noteMap :: "PopulatedNoteDoc ObjectMap"
  folderMap :: "PopulatedFolderDoc option ObjectMap"
  tagMap :: "PopulatedTagDoc ObjectMap"
  sync :: "nat option"
  syncTimer :: "nat option"

datatype error =
    UnprocessableEntityError string
  | Error string
  | TypeError
  | StoreError string

subsection \<open>JavaScript helpers\<close>

definition populate :: "string \<Rightarrow> NoteDoc \<Rightarrow> PopulatedNoteDoc" where
  \<comment> \<open>\<^verbatim>\<open>{ storageId, ...noteDoc }\<close>\<close>
  "populate sid d = NoteDoc.extend d (PopulatedNoteDoc.fields sid)"

definition lookupFolder :: "PopulatedFolderDoc option ObjectMap \<Rightarrow> string \<Rightarrow> PopulatedFolderDoc option" where
  \<comment> \<open>\<^verbatim>\<open>folderMap[p]\<close>, with a key bound to \<^verbatim>\<open>undefined\<close> read as \<^verbatim>\<open>undefined\<close>\<close>
  "lookupFolder fm p = (case map_of fm p of Some (Some f) \<Rightarrow> Some f | _ \<Rightarrow> None)"

definition spread :: "'v ObjectMap \<Rightarrow> 'v ObjectMap \<Rightarrow> 'v ObjectMap" where
  \<comment> \<open>\<^verbatim>\<open>{ ...a, ...b }\<close>: the keys of \<open>a\<close> in place, new keys of \<open>b\<close> appended\<close>
  "spread a b = fold (\<lambda>(k, v). AList.update k v) b a"

definition startsWith :: "string \<Rightarrow> string \<Rightarrow> bool" where
  "startsWith s p = prefix p s"

fun splitOn :: "char \<Rightarrow> string \<Rightarrow> string \<Rightarrow> string list" where
  "splitOn c acc [] = [rev acc]"
| "splitOn c acc (x # xs) = (if x = c then rev acc # splitOn c [] xs else splitOn c (x # acc) xs)"

definition split_slash :: "string \<Rightarrow> string list" where
  \<comment> \<open>\<^verbatim>\<open>s.split('/')\<close>\<close>
  "split_slash s = splitOn (CHR ''/'') [] s"

definition replaceHead :: "string \<Rightarrow> string \<Rightarrow> string \<Rightarrow> string" where
  \<comment> \<open>\<^verbatim>\<open>s.replace(new RegExp(`^${escapeRegExp(p)}`, 'g'), q)\<close>: the anchored pattern matches
      at most once, at the start of \<open>s\<close>\<close>
  "replaceHead p q s = (if prefix p s then q @ drop (length p) s else s)"

fun replaceFirst :: "string \<Rightarrow> string \<Rightarrow> string" where
  \<comment> \<open>\<^verbatim>\<open>s.replace(p, '')\<close> with a string pattern: the first occurrence of \<open>p\<close> is removed\<close>
  "replaceFirst p [] = []"
| "replaceFirst p (c # s) = (if prefix p (c # s) then drop (length p) (c # s) else c # replaceFirst p s)"

definition difference :: "string list \<Rightarrow> string list \<Rightarrow> string list" where
  \<comment> \<open>ramda's \<^verbatim>\<open>difference\<close>: the elements of the first list that are not in the second,
      without duplicates\<close>
  "difference xs ys = remdups (filter (\<lambda>x. x \<notin> set ys) xs)"

definition autoSyncIntervalTime :: nat where
  "autoSyncIntervalTime = 1000 * 60 * 60"

definition autoSyncDebounceWaitingTime :: nat where
  "autoSyncDebounceWaitingTime = 1000 * 30"

section \<open>The collaborators of the store\<close>

text \<open>
  The helpers of \<^verbatim>\<open>./utils\<close> and the constant of \<^verbatim>\<open>./consts\<close> are imported by the store
  and are not part of its file: they are parameters of the model.
\<close>

record Utils =
  getAllParentFolderPathnames :: "string \<Rightarrow> string list"
  getParentFolderPathname :: "string \<Rightarrow> string"
  isFolderPathnameValid :: "string \<Rightarrow> bool"
  TAG_ID_PREFIX :: string

text \<open>
  The document store (\<^verbatim>\<open>NoteDb\<close>, one per storage, opened by the storage id) is a
  parameter as well: a state \<open>'db\<close> and, for each of its methods, a function from the state
  to the answer and the next state. A rejected promise is \<open>Inl\<close>; a method that resolves to
  \<^verbatim>\<open>undefined\<close> answers \<open>None\<close>.
\<close>

type_synonym ('s, 'a) prog = "'s \<Rightarrow> (error + 'a) \<times> 's"

record AllDocsMap =
  all_noteMap :: "PopulatedNoteDoc ObjectMap"
  all_folderMap :: "FolderDoc ObjectMap"
  all_tagMap :: "TagDoc ObjectMap"

record 'db NoteDb =
  db_createFolder :: "string \<Rightarrow> ('db, FolderDoc) prog"
  db_getFolder :: "string \<Rightarrow> ('db, FolderDoc option) prog"
  db_getFoldersByPathnames :: "string list \<Rightarrow> ('db, FolderDoc list) prog"
  db_removeFolder :: "string \<Rightarrow> ('db, unit) prog"
  db_findNotesByFolder :: "string \<Rightarrow> ('db, NoteDoc list) prog"
  db_createNote :: "NoteDocEditibleProps \<Rightarrow> ('db, NoteDoc) prog"
  db_getNote :: "string \<Rightarrow> ('db, NoteDoc option) prog"
  db_updateNote :: "string \<Rightarrow> NoteDocEditibleProps \<Rightarrow> ('db, NoteDoc option) prog"
  db_trashNote :: "string \<Rightarrow> ('db, NoteDoc option) prog"
  db_untrashNote :: "string \<Rightarrow> ('db, NoteDoc) prog"
  db_purgeNote :: "string \<Rightarrow> ('db, unit) prog"
  db_getTag :: "string \<Rightarrow> ('db, TagDoc option) prog"
  db_removeTag :: "string \<Rightarrow> ('db, unit) prog"
  db_getAllDocsMap :: "('db, AllDocsMap) prog"

subsection \<open>Promises\<close>

definition ret :: "'a \<Rightarrow> ('s, 'a) prog" where
  "ret x = (\<lambda>s. (Inr x, s))"

definition throw :: "error \<Rightarrow> ('s, 'a) prog" where
  "throw e = (\<lambda>s. (Inl e, s))"

definition await :: "('s, 'a) prog \<Rightarrow> ('a \<Rightarrow> ('s, 'b) prog) \<Rightarrow> ('s, 'b) prog" where
  \<comment> \<open>\<^verbatim>\<open>const x = await m; ...\<close>: a rejection of \<open>m\<close> leaves the function\<close>
  "await m f = (\<lambda>s. case m s of (Inl e, s') \<Rightarrow> (Inl e, s') | (Inr x, s') \<Rightarrow> f x s')"

text \<open>
  \<^verbatim>\<open>await Promise.all(xs.map(async (x) => ...))\<close>. \<^verbatim>\<open>Promise.all\<close> rejects as soon as one of
  the promises rejects, and it cancels nothing: every started function still runs to its
  own end. The event loop interleaves the functions at their \<^verbatim>\<open>await\<close>s; here they run one
  after the other in the order of the list, each to its end, and the rejection reported
  is the first one met.
\<close>

fun awaitAll :: "('x \<Rightarrow> ('s, 'a) prog) \<Rightarrow> 'x list \<Rightarrow> ('s, 'a list) prog" where
  "awaitAll f [] s = (Inr [], s)"
| "awaitAll f (x # xs) s =
     (case f x s of (r, s1) \<Rightarrow>
        (case awaitAll f xs s1 of (rs, s2) \<Rightarrow>
           (case r of
              Inl e \<Rightarrow> (Inl e, s2)
            | Inr a \<Rightarrow> (case rs of Inl e \<Rightarrow> (Inl e, s2) | Inr as \<Rightarrow> (Inr (a # as), s2)))))"

section \<open>The state of the process\<close>

text \<open>
  Everything the store's callbacks read and write: the React state \<^verbatim>\<open>storageMap\<close>, the
  document stores by storage id, the preference \<^verbatim>\<open>general.enableAutoSync\<close>, whether a user
  is signed in, the timers armed by \<^verbatim>\<open>setTimeout\<close> and not yet fired or cleared (handle,
  storage id, delay), the replications in flight (handle, storage id, \<^verbatim>\<open>silent\<close>, and the
  storage the handlers closed over), the toasts pushed, the router's current pathname and
  the pathnames it was sent to. The descriptor list written to local storage by
  \<^verbatim>\<open>saveStorageDataList\<close> is a projection of \<^verbatim>\<open>storageMap\<close> and is not modelled.
\<close>

record 'db World =
  storageMap :: "NoteStorage ObjectMap"
  dbs :: "string \<Rightarrow> 'db"
  enableAutoSync :: bool
  userSignedIn :: bool
  timers :: "(nat \<times> string \<times> nat) list"
  sessions :: "(nat \<times> string \<times> bool \<times> NoteStorage) list"
  nextHandle :: nat
  toasts :: "(string \<times> string) list"
  currentPathnameWithoutNoteId :: string
  routerReplaced :: "string list"

definition dbCall :: "string \<Rightarrow> ('db, 'a) prog \<Rightarrow> ('db World, 'a) prog" where
  \<comment> \<open>\<^verbatim>\<open>storage.db.method(...)\<close> on the document store of storage \<open>sid\<close>: a storage is filed
      under its own id, and its \<^verbatim>\<open>db\<close> is the store opened with that id
      (\<^verbatim>\<open>new PouchDB(id, { adapter })\<close>)\<close>
  "dbCall sid m = (\<lambda>w. case m (dbs w sid) of (r, d) \<Rightarrow> (r, w\<lparr>dbs := (dbs w)(sid := d)\<rparr>))"

definition modifyStorage :: "string \<Rightarrow> (NoteStorage \<Rightarrow> NoteStorage) \<Rightarrow> 'db World \<Rightarrow> 'db World" where
  \<comment> \<open>\<^verbatim>\<open>setStorageMap(produce((draft) => { ... draft[sid]! ... }))\<close>. Every caller has read
      \<^verbatim>\<open>storageMap[sid]\<close> before, and no operation modelled here removes a storage, so the
      entry is there.\<close>
  "modifyStorage sid f w =
     (case map_of (storageMap w) sid of
        None \<Rightarrow> w
      | Some s \<Rightarrow> w\<lparr>storageMap := AList.update sid (f s) (storageMap w)\<rparr>)"

definition pushMessage :: "string \<Rightarrow> string \<Rightarrow> 'db World \<Rightarrow> 'db World" where
  "pushMessage t d w = w\<lparr>toasts := toasts w @ [(t, d)]\<rparr>"

definition clearTimeout :: "nat \<Rightarrow> 'db World \<Rightarrow> 'db World" where
  "clearTimeout h w = w\<lparr>timers := filter (\<lambda>t. fst t \<noteq> h) (timers w)\<rparr>"

section \<open>The sync scheduler\<close>

definition unlinkStorage :: "string \<Rightarrow> 'db World \<Rightarrow> 'db World" where
  \<comment> \<open>the \<^verbatim>\<open>setStorageMap\<close> of \<^verbatim>\<open>unlinkStorage\<close>; the \<^verbatim>\<open>saveStorageDataList\<close> after it is not
      modelled\<close>
  "unlinkStorage storageId w =
     (case map_of (storageMap w) storageId of
        None \<Rightarrow> w
      | Some existingStorage \<Rightarrow>
          w\<lparr>storageMap := AList.update storageId (existingStorage\<lparr>cloudStorage := None\<rparr>) (storageMap w)\<rparr>)"

definition syncStorage :: "string \<Rightarrow> bool \<Rightarrow> 'db World \<Rightarrow> 'db World" where
  \<comment> \<open>\<^verbatim>\<open>storage.db.sync(user, storage.cloudStorage)\<close> starts a replication; its handle is
      kept in \<^verbatim>\<open>storage.sync\<close>\<close>
  "syncStorage storageId silent w =
     (if \<not> userSignedIn w then w
      else case map_of (storageMap w) storageId of
        None \<Rightarrow> w
      | Some storage \<Rightarrow>
          if cloudStorage storage = None then w
          else if sync storage \<noteq> None then w
          else
            let h = nextHandle w in
            w\<lparr>storageMap := AList.update storageId (storage\<lparr>sync := Some h\<rparr>) (storageMap w),
              sessions := sessions w @ [(h, storageId, silent, storage)],
              nextHandle := Suc h\<rparr>)"

definition queueSyncingStorage :: "string \<Rightarrow> nat \<Rightarrow> 'db World \<Rightarrow> 'db World" where
  "queueSyncingStorage storageId delay w =
     (if \<not> enableAutoSync w then w
      else case map_of (storageMap w) storageId of
        None \<Rightarrow> w
      | Some storage \<Rightarrow>
          let w1 = (case syncTimer storage of None \<Rightarrow> w | Some t \<Rightarrow> clearTimeout t w);
              h = nextHandle w1
          in w1\<lparr>storageMap := AList.update storageId (storage\<lparr>syncTimer := Some h\<rparr>) (storageMap w1),
                timers := timers w1 @ [(h, storageId, delay)],
                nextHandle := Suc h\<rparr>)"

definition cancelSyncingStorageQueue :: "string \<Rightarrow> 'db World \<Rightarrow> 'db World" where
  "cancelSyncingStorageQueue storageId w =
     (case map_of (storageMap w) storageId of
        None \<Rightarrow> w
      | Some storage \<Rightarrow>
          (case syncTimer storage of
             None \<Rightarrow> w
           | Some t \<Rightarrow>
               let w1 = clearTimeout t w
               in w1\<lparr>storageMap := AList.update storageId (storage\<lparr>syncTimer := None\<rparr>) (storageMap w1)\<rparr>))"

definition fireTimer :: "nat \<Rightarrow> 'db World \<Rightarrow> 'db World" where
  \<comment> \<open>An armed timer expires: it leaves the armed timers and its callback
      \<^verbatim>\<open>() => { syncStorage(storageId, true); queueSyncingStorage(storageId) }\<close> runs.\<close>
  "fireTimer h w =
     (case map_of (timers w) h of
        None \<Rightarrow> w
      | Some (storageId, delay) \<Rightarrow>
          queueSyncingStorage storageId autoSyncIntervalTime
            (syncStorage storageId True (clearTimeout h w)))"

section \<open>The index operations\<close>

text \<open>
  The operations that write \<^verbatim>\<open>noteMap\<close>, \<^verbatim>\<open>folderMap\<close> or \<^verbatim>\<open>tagMap\<close>. Each reads
  \<^verbatim>\<open>storageMap[storageId]\<close>, awaits the document store, and ends with one
  \<^verbatim>\<open>setStorageMap(produce(...))\<close>, whose callback is the definition named \<open>_draft\<close> here,
  and with \<^verbatim>\<open>queueSyncingStorage\<close>. \<^verbatim>\<open>updateFolder\<close>, the operations on attachments and
  those on the list of storages write none of the three maps and are left out, with the
  \<^verbatim>\<open>attachmentMap\<close> of a storage.
\<close>

subsection \<open>Shared steps\<close>

definition populateFolder :: "FolderDoc option \<Rightarrow> string \<Rightarrow> string set \<Rightarrow> PopulatedFolderDoc" where
  \<comment> \<open>\<^verbatim>\<open>{ ...folderDoc, pathname: p, noteIdSet: s }\<close>\<close>
  "populateFolder fd p s =
     \<lparr>folder_id = (case fd of None \<Rightarrow> None | Some d \<Rightarrow> folder_id d), folder_pathname = p, noteIdSet = s\<rparr>"

definition populateTag :: "TagDoc option \<Rightarrow> string set \<Rightarrow> PopulatedTagDoc" where
  \<comment> \<open>\<^verbatim>\<open>{ ...tagDoc, noteIdSet: s }\<close>\<close>
  "populateTag td s =
     \<lparr>tag_id = (case td of None \<Rightarrow> None | Some d \<Rightarrow> tag_id d),
      tag_name = (case td of None \<Rightarrow> None | Some d \<Rightarrow> tag_name d),
      tag_noteIdSet = s\<rparr>"

definition emptyFolders :: "FolderDoc list \<Rightarrow> PopulatedFolderDoc list" where
  \<comment> \<open>\<^verbatim>\<open>folders.map((folderDoc) => ({ ...folderDoc, pathname: folderDoc.pathname, noteIdSet: new Set() }))\<close>\<close>
  "emptyFolders fs = map (\<lambda>fd. populateFolder (Some fd) (folder_pathname fd) {}) fs"

definition putFolders :: "PopulatedFolderDoc list \<Rightarrow> PopulatedFolderDoc option ObjectMap \<Rightarrow> PopulatedFolderDoc option ObjectMap" where
  \<comment> \<open>\<^verbatim>\<open>folders.forEach((folderDoc) => { draft[id]!.folderMap[folderDoc.pathname] = folderDoc })\<close>\<close>
  "putFolders fs fm = fold (\<lambda>f m. AList.update (folder_pathname f) (Some f) m) fs fm"

definition parentFolderPathnamesToCheck :: "Utils \<Rightarrow> NoteStorage \<Rightarrow> string \<Rightarrow> string list" where
  \<comment> \<open>\<^verbatim>\<open>[...getAllParentFolderPathnames(p)].filter((aPathname) => storage.folderMap[aPathname] == null)\<close>\<close>
  "parentFolderPathnamesToCheck U storage p =
     filter (\<lambda>aPathname. lookupFolder (folderMap storage) aPathname = None) (getAllParentFolderPathnames U p)"

definition folderWithNote :: "'db NoteDb \<Rightarrow> string \<Rightarrow> NoteStorage \<Rightarrow> PopulatedNoteDoc \<Rightarrow> ('db World, PopulatedFolderDoc) prog" where
  \<comment> \<open>The \<^verbatim>\<open>const folder: PopulatedFolderDoc = storage.folderMap[noteDoc.folderPathname] == null ? ... : ...\<close>
      of \<^verbatim>\<open>createNote\<close>, \<^verbatim>\<open>updateNote\<close> and \<^verbatim>\<open>untrashNote\<close> (the same text in the three).\<close>
  "folderWithNote D storageId storage noteDoc =
     (case lookupFolder (folderMap storage) (folderPathname noteDoc) of
        None \<Rightarrow>
          await (dbCall storageId (db_getFolder D (folderPathname noteDoc)))
            (\<lambda>fd. ret (populateFolder fd (folderPathname noteDoc) {note_id noteDoc}))
      | Some f \<Rightarrow> ret (f\<lparr>noteIdSet := insert (note_id noteDoc) (noteIdSet f)\<rparr>))"

definition tagWithNote :: "'db NoteDb \<Rightarrow> string \<Rightarrow> NoteStorage \<Rightarrow> PopulatedNoteDoc \<Rightarrow> string \<Rightarrow> ('db World, PopulatedTagDoc) prog" where
  "tagWithNote D storageId storage noteDoc tag =
     (case map_of (tagMap storage) tag of
        None \<Rightarrow>
          await (dbCall storageId (db_getTag D tag))
            (\<lambda>td. ret (populateTag td {note_id noteDoc}))
      | Some t \<Rightarrow> ret (t\<lparr>tag_noteIdSet := insert (note_id noteDoc) (tag_noteIdSet t)\<rparr>))"

fun tagsByKey :: "string \<Rightarrow> PopulatedTagDoc list \<Rightarrow> PopulatedTagDoc ObjectMap \<Rightarrow> error + PopulatedTagDoc ObjectMap" where
  \<comment> \<open>\<^verbatim>\<open>.reduce((acc, tag) => { acc[tag._id.replace(TAG_ID_PREFIX, '')] = tag; return acc }, {})\<close>;
      reading \<^verbatim>\<open>_id\<close> off an entry spread from \<^verbatim>\<open>undefined\<close> gives \<^verbatim>\<open>undefined\<close>, and
      \<^verbatim>\<open>undefined.replace\<close> throws.\<close>
  "tagsByKey pfx [] acc = Inr acc"
| "tagsByKey pfx (t # ts) acc =
     (case tag_id t of
        None \<Rightarrow> Inl TypeError
      | Some i \<Rightarrow> tagsByKey pfx ts (AList.update (replaceFirst pfx i) t acc))"

definition modifiedTagsWithNote :: "Utils \<Rightarrow> 'db NoteDb \<Rightarrow> string \<Rightarrow> NoteStorage \<Rightarrow> PopulatedNoteDoc \<Rightarrow> ('db World, PopulatedTagDoc ObjectMap) prog" where
  \<comment> \<open>The \<^verbatim>\<open>modifiedTags\<close> of \<^verbatim>\<open>createNote\<close>, \<^verbatim>\<open>updateNote\<close> and \<^verbatim>\<open>untrashNote\<close>.\<close>
  "modifiedTagsWithNote U D storageId storage noteDoc =
     await (awaitAll (tagWithNote D storageId storage noteDoc) (tags noteDoc))
       (\<lambda>ts. case tagsByKey (TAG_ID_PREFIX U) ts [] of Inl e \<Rightarrow> throw e | Inr m \<Rightarrow> ret m)"

definition queued :: "string \<Rightarrow> 'db World \<Rightarrow> 'db World" where
  \<comment> \<open>\<^verbatim>\<open>queueSyncingStorage(storageId, autoSyncDebounceWaitingTime)\<close>\<close>
  "queued storageId w = queueSyncingStorage storageId autoSyncDebounceWaitingTime w"

subsection \<open>createFolder\<close>

definition createFolder_draft :: "NoteStorage \<Rightarrow> FolderDoc list \<Rightarrow> NoteStorage \<Rightarrow> NoteStorage" where
  "createFolder_draft storage createdFolders draft =
     draft\<lparr>folderMap :=
       fold (\<lambda>aFolder fm.
               if lookupFolder (folderMap storage) (folder_pathname aFolder) = None
               then AList.update (folder_pathname aFolder)
                      (Some (populateFolder (Some aFolder) (folder_pathname aFolder) {})) fm
               else fm)
            createdFolders (folderMap draft)\<rparr>"

definition createFolder :: "Utils \<Rightarrow> 'db NoteDb \<Rightarrow> string \<Rightarrow> string \<Rightarrow> ('db World, unit) prog" where
  "createFolder U D storageId aPathname w =
     (case map_of (storageMap w) storageId of
        None \<Rightarrow> (Inr (), w)
      | Some storage \<Rightarrow>
          (case dbCall storageId (db_createFolder D aPathname) w of
             (Inl e, w1) \<Rightarrow> (Inr (), pushMessage ''Error'' ''Folder name is invalid.'' w1)
           | (Inr folder, w1) \<Rightarrow>
               await (dbCall storageId (db_getFoldersByPathnames D (getAllParentFolderPathnames U aPathname)))
                 (\<lambda>parentFolders w2.
                    (Inr (), queued storageId
                       (modifyStorage storageId
                          (createFolder_draft storage (rev (folder # parentFolders))) w2)))
                 w1))"

subsection \<open>createNote\<close>

definition createNote_draft ::
  "NoteStorage \<Rightarrow> PopulatedNoteDoc \<Rightarrow> FolderDoc list \<Rightarrow> PopulatedFolderDoc \<Rightarrow> PopulatedTagDoc ObjectMap \<Rightarrow> NoteStorage \<Rightarrow> NoteStorage" where
  "createNote_draft storage noteDoc parentFoldersToRefresh folder modifiedTags draft =
     draft\<lparr>noteMap := AList.update (note_id noteDoc) noteDoc (noteMap draft),
           folderMap := AList.update (folderPathname noteDoc) (Some folder)
                          (putFolders (emptyFolders parentFoldersToRefresh) (folderMap draft)),
           tagMap := spread (tagMap storage) modifiedTags\<rparr>"

definition createNote :: "Utils \<Rightarrow> 'db NoteDb \<Rightarrow> string \<Rightarrow> NoteDocEditibleProps \<Rightarrow> ('db World, PopulatedNoteDoc option) prog" where
  "createNote U D storageId noteProps w =
     (case map_of (storageMap w) storageId of
        None \<Rightarrow> (Inr None, w)
      | Some storage \<Rightarrow>
          await (dbCall storageId (db_createNote D noteProps)) (\<lambda>created.
            let noteDoc = populate storageId created in
            await (dbCall storageId (db_getFoldersByPathnames D
                     (parentFolderPathnamesToCheck U storage (folderPathname noteDoc)))) (\<lambda>parentFoldersToRefresh.
            await (folderWithNote D storageId storage noteDoc) (\<lambda>folder.
            await (modifiedTagsWithNote U D storageId storage noteDoc) (\<lambda>modifiedTags w'.
              (Inr (Some noteDoc),
               queued storageId
                 (modifyStorage storageId
                    (createNote_draft storage noteDoc parentFoldersToRefresh folder modifiedTags) w'))))))
            w)"

subsection \<open>trashNote, untrashNote, purgeNote\<close>

definition tagsWithoutNote :: "NoteStorage \<Rightarrow> string \<Rightarrow> string list \<Rightarrow> PopulatedTagDoc ObjectMap" where
  \<comment> \<open>The \<^verbatim>\<open>modifiedTags\<close> of \<^verbatim>\<open>trashNote\<close>: a tag without an entry is skipped.\<close>
  "tagsWithoutNote storage nid ts =
     fold (\<lambda>tag acc.
             case map_of (tagMap storage) tag of
               None \<Rightarrow> acc
             | Some t \<Rightarrow> AList.update tag (t\<lparr>tag_noteIdSet := tag_noteIdSet t - {nid}\<rparr>) acc)
          ts []"

definition trashNote_draft ::
  "NoteStorage \<Rightarrow> PopulatedNoteDoc \<Rightarrow> PopulatedFolderDoc option \<Rightarrow> PopulatedTagDoc ObjectMap \<Rightarrow> NoteStorage \<Rightarrow> NoteStorage" where
  "trashNote_draft storage noteDoc folder modifiedTags draft =
     draft\<lparr>noteMap := AList.update (note_id noteDoc) noteDoc (noteMap draft),
           folderMap := AList.update (folderPathname noteDoc) folder (folderMap draft),
           tagMap := spread (tagMap storage) modifiedTags\<rparr>"

definition trashNote :: "'db NoteDb \<Rightarrow> string \<Rightarrow> string \<Rightarrow> ('db World, PopulatedNoteDoc option) prog" where
  "trashNote D storageId noteId w =
     (case map_of (storageMap w) storageId of
        None \<Rightarrow> (Inr None, w)
      | Some storage \<Rightarrow>
          await (dbCall storageId (db_trashNote D noteId)) (\<lambda>updatedNoteDoc.
            case updatedNoteDoc of
              None \<Rightarrow> ret None
            | Some updated \<Rightarrow>
                let noteDoc = populate storageId updated;
                    folder = (case lookupFolder (folderMap storage) (folderPathname noteDoc) of
                                None \<Rightarrow> None
                              | Some f \<Rightarrow> Some (f\<lparr>noteIdSet := noteIdSet f - {note_id noteDoc}\<rparr>));
                    modifiedTags = tagsWithoutNote storage (note_id noteDoc) (tags noteDoc)
                in (\<lambda>w'. (Inr (Some noteDoc),
                           queued storageId
                             (modifyStorage storageId (trashNote_draft storage noteDoc folder modifiedTags) w'))))
            w)"

definition untrashNote :: "Utils \<Rightarrow> 'db NoteDb \<Rightarrow> string \<Rightarrow> string \<Rightarrow> ('db World, PopulatedNoteDoc option) prog" where
  "untrashNote U D storageId noteId w =
     (case map_of (storageMap w) storageId of
        None \<Rightarrow> (Inr None, w)
      | Some storage \<Rightarrow>
          await (dbCall storageId (db_untrashNote D noteId)) (\<lambda>untrashed.
            let noteDoc = populate storageId untrashed in
            await (folderWithNote D storageId storage noteDoc) (\<lambda>folder.
            await (modifiedTagsWithNote U D storageId storage noteDoc) (\<lambda>modifiedTags w'.
              (Inr (Some noteDoc),
               queued storageId
                 (modifyStorage storageId (trashNote_draft storage noteDoc (Some folder) modifiedTags) w')))))
            w)"

fun purgedTags :: "NoteStorage \<Rightarrow> string \<Rightarrow> string list \<Rightarrow> PopulatedTagDoc ObjectMap \<Rightarrow> error + PopulatedTagDoc ObjectMap" where
  \<comment> \<open>The \<^verbatim>\<open>modifiedTags\<close> of \<^verbatim>\<open>purgeNote\<close>: \<^verbatim>\<open>storage.tagMap[tag]!.noteIdSet\<close> throws for a
      tag without an entry.\<close>
  "purgedTags storage nid [] acc = Inr acc"
| "purgedTags storage nid (tag # ts) acc =
     (case map_of (tagMap storage) tag of
        None \<Rightarrow> Inl TypeError
      | Some t \<Rightarrow> purgedTags storage nid ts (AList.update tag (t\<lparr>tag_noteIdSet := tag_noteIdSet t - {nid}\<rparr>) acc))"

definition purgeNote_draft ::
  "NoteStorage \<Rightarrow> PopulatedNoteDoc ObjectMap \<Rightarrow> string \<Rightarrow> PopulatedFolderDoc \<Rightarrow> PopulatedTagDoc ObjectMap \<Rightarrow> NoteStorage \<Rightarrow> NoteStorage" where
  "purgeNote_draft storage newNoteMap p folder modifiedTags draft =
     draft\<lparr>noteMap := newNoteMap,
           folderMap := AList.update p (Some folder) (folderMap draft),
           tagMap := spread (tagMap storage) modifiedTags\<rparr>"

definition purgeNote :: "'db NoteDb \<Rightarrow> string \<Rightarrow> string \<Rightarrow> ('db World, unit) prog" where
  "purgeNote D storageId noteId w =
     (case map_of (storageMap w) storageId of
        None \<Rightarrow> (Inr (), w)
      | Some storage \<Rightarrow>
          await (dbCall storageId (db_purgeNote D noteId)) (\<lambda>_.
            case map_of (noteMap storage) noteId of
              None \<Rightarrow> throw TypeError
            | Some noteDoc \<Rightarrow>
                (case lookupFolder (folderMap storage) (folderPathname noteDoc) of
                   None \<Rightarrow> throw TypeError
                 | Some f \<Rightarrow>
                     (case purgedTags storage (note_id noteDoc) (tags noteDoc) [] of
                        Inl e \<Rightarrow> throw e
                      | Inr modifiedTags \<Rightarrow>
                          (\<lambda>w'. (Inr (),
                                 queued storageId
                                   (modifyStorage storageId
                                      (purgeNote_draft storage (AList.delete noteId (noteMap storage))
                                         (folderPathname noteDoc)
                                         (f\<lparr>noteIdSet := noteIdSet f - {note_id noteDoc}\<rparr>) modifiedTags) w'))))))
            w)"

subsection \<open>updateNote\<close>

definition updateNote_draft ::
  "NoteStorage \<Rightarrow> PopulatedNoteDoc \<Rightarrow> PopulatedFolderDoc list \<Rightarrow> PopulatedTagDoc ObjectMap \<Rightarrow> PopulatedTagDoc ObjectMap \<Rightarrow> NoteStorage \<Rightarrow> NoteStorage" where
  "updateNote_draft storage noteDoc folderListToRefresh removedTags modifiedTags draft =
     draft\<lparr>noteMap := AList.update (note_id noteDoc) noteDoc (noteMap draft),
           folderMap := putFolders folderListToRefresh (folderMap draft),
           tagMap := spread (spread (tagMap storage) removedTags) modifiedTags\<rparr>"

definition updateNote :: "Utils \<Rightarrow> 'db NoteDb \<Rightarrow> string \<Rightarrow> string \<Rightarrow> NoteDocEditibleProps \<Rightarrow> ('db World, PopulatedNoteDoc option) prog" where
  \<comment> \<open>\<^verbatim>\<open>storage.noteMap[noteDoc._id]!.tags\<close> throws when the index has no entry for the note;
      \<^verbatim>\<open>removedTags\<close> is the reduction of \<^verbatim>\<open>purgeNote\<close> over the tags the note lost.\<close>
  "updateNote U D storageId noteId noteProps w =
     (case map_of (storageMap w) storageId of
        None \<Rightarrow> (Inr None, w)
      | Some storage \<Rightarrow>
          await (dbCall storageId (db_getNote D noteId)) (\<lambda>previousNoteDoc.
          await (dbCall storageId (db_updateNote D noteId noteProps)) (\<lambda>updatedNoteDoc.
            case updatedNoteDoc of
              None \<Rightarrow> ret None
            | Some updated \<Rightarrow>
                let noteDoc = populate storageId updated;
                    previousFolderPathname =
                      (case previousNoteDoc of None \<Rightarrow> folderPathname noteDoc | Some p \<Rightarrow> folderPathname p);
                    folderPathnameIsChanged = (previousFolderPathname \<noteq> folderPathname noteDoc);
                    previousFolders =
                      (if folderPathnameIsChanged
                       then (case lookupFolder (folderMap storage) previousFolderPathname of
                               None \<Rightarrow> []
                             | Some previousFolder \<Rightarrow>
                                 [previousFolder\<lparr>noteIdSet := noteIdSet previousFolder - {noteId}\<rparr>])
                       else [])
                in
                await (dbCall storageId (db_getFoldersByPathnames D
                         (parentFolderPathnamesToCheck U storage (folderPathname noteDoc)))) (\<lambda>parentFolders.
                await (folderWithNote D storageId storage noteDoc) (\<lambda>folder.
                  let folderListToRefresh = previousFolders @ emptyFolders parentFolders @ [folder] in
                  case map_of (noteMap storage) (note_id noteDoc) of
                    None \<Rightarrow> throw TypeError
                  | Some indexedNote \<Rightarrow>
                      (case purgedTags storage (note_id noteDoc)
                              (difference (tags indexedNote) (tags noteDoc)) [] of
                         Inl e \<Rightarrow> throw e
                       | Inr removedTags \<Rightarrow>
                           await (modifiedTagsWithNote U D storageId storage noteDoc) (\<lambda>modifiedTags w'.
                             (Inr (Some noteDoc),
                              queued storageId
                                (modifyStorage storageId
                                   (updateNote_draft storage noteDoc folderListToRefresh removedTags modifiedTags)
                                   w'))))))))
            w)"

subsection \<open>renameFolder\<close>

definition onlyFolderPathname :: "string \<Rightarrow> NoteDocEditibleProps" where
  \<comment> \<open>\<^verbatim>\<open>{ folderPathname: p }\<close>\<close>
  "onlyFolderPathname p =
     \<lparr>p_title = None, p_content = None, p_tags = None, p_folderPathname = Some p, p_data = None\<rparr>"

definition renameOne ::
  "'db NoteDb \<Rightarrow> string \<Rightarrow> string \<Rightarrow> string \<Rightarrow> string \<Rightarrow> ('db World, PopulatedFolderDoc \<times> NoteDoc list) prog" where
  \<comment> \<open>The function mapped over \<^verbatim>\<open>allFoldersToRename\<close>; it answers what it pushes to
      \<^verbatim>\<open>folderListToRefresh\<close> and \<^verbatim>\<open>notesListToRefresh\<close>. \<^verbatim>\<open>note._id\<close> of a note that
      \<^verbatim>\<open>updateNote\<close> resolved to \<^verbatim>\<open>undefined\<close> throws. The replacement pathname is taken
      literally (no \<^verbatim>\<open>$\<close> pattern in it).\<close>
  "renameOne D storageId aPathname newPathname aFolderPathname =
     (let newfolderPathname = replaceHead aPathname newPathname aFolderPathname in
      await (dbCall storageId (db_getFolder D aFolderPathname)) (\<lambda>folder.
        if folder = None
        then throw (UnprocessableEntityError (''this folder does not exist `'' @ aFolderPathname @ ''`''))
        else
          await (dbCall storageId (db_getFolder D newfolderPathname)) (\<lambda>existing.
            if existing \<noteq> None
            then throw (UnprocessableEntityError (''this folder already exists `'' @ newfolderPathname @ ''`''))
            else if length (split_slash aFolderPathname) \<noteq> length (split_slash newfolderPathname)
            then throw (UnprocessableEntityError (''New name is invalid. `'' @ newfolderPathname @ ''`''))
            else
              await (dbCall storageId (db_findNotesByFolder D aFolderPathname)) (\<lambda>notes.
              await (dbCall storageId (db_createFolder D newfolderPathname)) (\<lambda>newFolder.
              await (awaitAll (\<lambda>note. dbCall storageId
                                 (db_updateNote D (note_id note) (onlyFolderPathname newfolderPathname))) notes)
                (\<lambda>rewritten.
                   case those rewritten of
                     None \<Rightarrow> throw TypeError
                   | Some rewrittenNotes \<Rightarrow>
                       ret (populateFolder (Some newFolder) (folder_pathname newFolder)
                              (set (map note_id rewrittenNotes)),
                            rewrittenNotes)))))))"

definition renameFolder_notes :: "NoteStorage \<Rightarrow> NoteDoc list \<Rightarrow> NoteStorage \<Rightarrow> NoteStorage" where
  "renameFolder_notes storage notesListToRefresh draft =
     draft\<lparr>noteMap :=
       fold (\<lambda>noteDoc m. AList.update (note_id noteDoc) (populate (storage_id storage) noteDoc) m)
            notesListToRefresh (noteMap draft)\<rparr>"

definition renameFolder_folders :: "PopulatedFolderDoc list \<Rightarrow> NoteStorage \<Rightarrow> NoteStorage" where
  "renameFolder_folders folderListToRefresh draft =
     draft\<lparr>folderMap := putFolders folderListToRefresh (folderMap draft)\<rparr>"

definition deleteFolders :: "string list \<Rightarrow> NoteStorage \<Rightarrow> NoteStorage" where
  \<comment> \<open>\<^verbatim>\<open>pathnames.forEach((aPathname) => { delete draft[storageId]!.folderMap[aPathname] })\<close>\<close>
  "deleteFolders ps draft = draft\<lparr>folderMap := fold AList.delete ps (folderMap draft)\<rparr>"

definition renameFolder :: "Utils \<Rightarrow> 'db NoteDb \<Rightarrow> string \<Rightarrow> string \<Rightarrow> string \<Rightarrow> ('db World, unit) prog" where
  "renameFolder U D storageId aPathname newPathname w =
     (case map_of (storageMap w) storageId of
        None \<Rightarrow> (Inr (), w)
      | Some storage \<Rightarrow>
          if \<not> isFolderPathnameValid U aPathname
          then (Inl (UnprocessableEntityError (''pathname is invalid, got `'' @ aPathname @ ''`'')), w)
          else if \<not> isFolderPathnameValid U newPathname
          then (Inl (UnprocessableEntityError (''pathname is invalid, got `'' @ newPathname @ ''`'')), w)
          else
            let subFolders = filter (\<lambda>k. startsWith k (aPathname @ ''/'')) (map fst (folderMap storage));
                allFoldersToRename = aPathname # subFolders
            in
            await (awaitAll (renameOne D storageId aPathname newPathname) allFoldersToRename) (\<lambda>refreshed.
            await (dbCall storageId (db_removeFolder D aPathname)) (\<lambda>_ w'.
              (Inr (),
               queued storageId
                 (modifyStorage storageId (deleteFolders allFoldersToRename)
                    (modifyStorage (storage_id storage) (renameFolder_folders (map fst refreshed))
                       (modifyStorage (storage_id storage)
                          (renameFolder_notes storage (concat (map snd refreshed))) w'))))))
            w)"

subsection \<open>removeFolder\<close>

definition noteTags :: "string \<Rightarrow> string list \<Rightarrow> (string \<times> string list) list \<Rightarrow> (string \<times> string list) list" where
  \<comment> \<open>\<^verbatim>\<open>note.tags.forEach((tag) => { ... })\<close> on \<^verbatim>\<open>affectedTagIdAndNotesIdMap\<close>\<close>
  "noteTags noteId ts affected =
     fold (\<lambda>tag m. case map_of m tag of
                      Some ids \<Rightarrow> AList.update tag (ids @ [noteId]) m
                    | None \<Rightarrow> AList.update tag [noteId] m)
          ts affected"

definition trashedByFolders ::
  "string list \<Rightarrow> PopulatedNoteDoc ObjectMap \<Rightarrow> PopulatedNoteDoc ObjectMap \<times> (string \<times> string list) list" where
  \<comment> \<open>The reduction over \<^verbatim>\<open>Object.keys(storage.noteMap)\<close>: the notes of the deleted folders,
      marked trashed, and the note ids to take out of each of their tags.\<close>
  "trashedByFolders deletedFolderPathnames nm =
     fold (\<lambda>(noteId, note) (acc, affected).
             if folderPathname note \<in> set deletedFolderPathnames
             then (AList.update noteId (note\<lparr>trashed := True\<rparr>) acc, noteTags noteId (tags note) affected)
             else (acc, affected))
          nm ([], [])"

fun tagsWithoutNotes ::
  "NoteStorage \<Rightarrow> (string \<times> string list) list \<Rightarrow> PopulatedTagDoc ObjectMap \<Rightarrow> error + PopulatedTagDoc ObjectMap" where
  \<comment> \<open>The \<^verbatim>\<open>modifiedTags\<close> of \<^verbatim>\<open>removeFolder\<close>; \<^verbatim>\<open>storage.tagMap[tag]!.noteIdSet\<close> throws for
      a tag without an entry.\<close>
  "tagsWithoutNotes storage [] acc = Inr acc"
| "tagsWithoutNotes storage ((tag, noteIds) # rest) acc =
     (case map_of (tagMap storage) tag of
        None \<Rightarrow> Inl TypeError
      | Some t \<Rightarrow>
          tagsWithoutNotes storage rest
            (AList.update tag (t\<lparr>tag_noteIdSet := tag_noteIdSet t - set noteIds\<rparr>) acc))"

definition removeFolder_draft ::
  "string list \<Rightarrow> PopulatedNoteDoc ObjectMap \<Rightarrow> PopulatedTagDoc ObjectMap \<Rightarrow> NoteStorage \<Rightarrow> NoteStorage" where
  "removeFolder_draft deletedFolderPathnames modifiedNotes modifiedTags draft =
     draft\<lparr>folderMap := fold AList.delete deletedFolderPathnames (folderMap draft),
           noteMap := spread (noteMap draft) modifiedNotes,
           tagMap := spread (tagMap draft) modifiedTags\<rparr>"

definition routerReplace :: "string \<Rightarrow> 'db World \<Rightarrow> 'db World" where
  "routerReplace p w = w\<lparr>routerReplaced := routerReplaced w @ [p]\<rparr>"

definition removeFolder :: "Utils \<Rightarrow> 'db NoteDb \<Rightarrow> string \<Rightarrow> string \<Rightarrow> ('db World, unit) prog" where
  "removeFolder U D storageId aPathname w =
     (case map_of (storageMap w) storageId of
        None \<Rightarrow> (Inr (), w)
      | Some storage \<Rightarrow>
          await (dbCall storageId (db_removeFolder D aPathname)) (\<lambda>_ w1.
            let w2 = (if startsWith (currentPathnameWithoutNoteId w1 @ ''/'')
                           (''/app/storages/'' @ storageId @ ''/notes'' @ aPathname @ ''/'')
                      then routerReplace (''/app/storages/'' @ storageId @ ''/notes''
                                           @ getParentFolderPathname U aPathname) w1
                      else w1);
                deletedFolderPathnames =
                  aPathname # filter (\<lambda>k. startsWith k (aPathname @ ''/'')) (map fst (folderMap storage));
                (modifiedNotes, affectedTagIdAndNotesIdMap) =
                  trashedByFolders deletedFolderPathnames (noteMap storage)
            in case tagsWithoutNotes storage affectedTagIdAndNotesIdMap [] of
                 Inl e \<Rightarrow> (Inl e, w2)
               | Inr modifiedTags \<Rightarrow>
                   (Inr (),
                    queued storageId
                      (modifyStorage storageId
                         (removeFolder_draft deletedFolderPathnames modifiedNotes modifiedTags) w2)))
            w)"

subsection \<open>removeTag\<close>

definition notesWithoutTag :: "string \<Rightarrow> PopulatedNoteDoc ObjectMap \<Rightarrow> PopulatedNoteDoc ObjectMap" where
  "notesWithoutTag tag nm =
     fold (\<lambda>(noteId, note) acc.
             if tag \<in> set (tags note)
             then AList.update noteId (note\<lparr>tags := filter (\<lambda>noteTag. noteTag \<noteq> tag) (tags note)\<rparr>) acc
             else acc)
          nm []"

definition removeTag_draft :: "PopulatedNoteDoc ObjectMap \<Rightarrow> PopulatedTagDoc ObjectMap \<Rightarrow> NoteStorage \<Rightarrow> NoteStorage" where
  "removeTag_draft modifiedNotes newTagMap draft =
     draft\<lparr>noteMap := spread (noteMap draft) modifiedNotes, tagMap := newTagMap\<rparr>"

definition removeTag :: "'db NoteDb \<Rightarrow> string \<Rightarrow> string \<Rightarrow> ('db World, unit) prog" where
  "removeTag D storageId tag w =
     (case map_of (storageMap w) storageId of
        None \<Rightarrow> (Inr (), w)
      | Some storage \<Rightarrow>
          await (dbCall storageId (db_removeTag D tag)) (\<lambda>_ w1.
            let w2 = (if currentPathnameWithoutNoteId w1 = ''/app/storages/'' @ storageId @ ''/tags/'' @ tag
                      then routerReplace (''/app/storages/'' @ storageId @ ''/notes'') w1
                      else w1)
            in (Inr (),
                queued storageId
                  (modifyStorage storageId
                     (removeTag_draft (notesWithoutTag tag (noteMap storage))
                        (AList.delete tag (tagMap storage))) w2)))
            w)"

subsection \<open>moveNoteToOtherStorage\<close>

definition tagKey :: "PopulatedTagDoc \<Rightarrow> string" where
  \<comment> \<open>\<^verbatim>\<open>tagMap[tagDoc.name]\<close>: an absent name is the property key \<^verbatim>\<open>"undefined"\<close>\<close>
  "tagKey t = (case tag_name t of None \<Rightarrow> ''undefined'' | Some n \<Rightarrow> n)"

definition putTags :: "PopulatedTagDoc list \<Rightarrow> PopulatedTagDoc ObjectMap \<Rightarrow> PopulatedTagDoc ObjectMap" where
  \<comment> \<open>\<^verbatim>\<open>tags.forEach((tagDoc) => { draft[id]!.tagMap[tagDoc.name] = tagDoc })\<close>\<close>
  "putTags ts tm = fold (\<lambda>t m. AList.update (tagKey t) t m) ts tm"

definition moveNote_original ::
  "PopulatedNoteDoc ObjectMap \<Rightarrow> PopulatedFolderDoc option \<Rightarrow> PopulatedTagDoc list \<Rightarrow> NoteStorage \<Rightarrow> NoteStorage" where
  "moveNote_original modifiedNoteMapOfOriginalStorage modifiedFolderInOriginalStorage modifiedTagsInOriginalStorage draft =
     draft\<lparr>noteMap := modifiedNoteMapOfOriginalStorage,
           folderMap := (case modifiedFolderInOriginalStorage of
                           None \<Rightarrow> folderMap draft
                         | Some f \<Rightarrow> AList.update (folder_pathname f) (Some f) (folderMap draft)),
           tagMap := putTags modifiedTagsInOriginalStorage (tagMap draft)\<rparr>"

definition moveNote_target ::
  "PopulatedNoteDoc \<Rightarrow> PopulatedFolderDoc list \<Rightarrow> PopulatedTagDoc list \<Rightarrow> NoteStorage \<Rightarrow> NoteStorage" where
  "moveNote_target newNote modifiedFoldersInTargetStorage modifiedTagsInTargetStorage draft =
     draft\<lparr>noteMap := AList.update (note_id newNote) newNote (noteMap draft),
           folderMap := putFolders modifiedFoldersInTargetStorage (folderMap draft),
           tagMap := putTags modifiedTagsInTargetStorage (tagMap draft)\<rparr>"

definition targetTag :: "'db NoteDb \<Rightarrow> string \<Rightarrow> NoteStorage \<Rightarrow> PopulatedNoteDoc \<Rightarrow> string \<Rightarrow> ('db World, PopulatedTagDoc) prog" where
  "targetTag D targetStorageId targetStorage newNote tagName =
     (case map_of (tagMap targetStorage) tagName of
        None \<Rightarrow>
          await (dbCall targetStorageId (db_getTag D tagName))
            (\<lambda>td. ret ((populateTag td {note_id newNote})\<lparr>tag_name := Some tagName\<rparr>))
      | Some tagDoc \<Rightarrow> ret (tagDoc\<lparr>tag_noteIdSet := insert (note_id newNote) (tag_noteIdSet tagDoc)\<rparr>))"

definition moveNoteToOtherStorage ::
  "Utils \<Rightarrow> 'db NoteDb \<Rightarrow> string \<Rightarrow> string \<Rightarrow> string \<Rightarrow> string \<Rightarrow> ('db World, unit) prog" where
  "moveNoteToOtherStorage U D originalStorageId noteId targetStorageId targetFolderPathname w =
     (case map_of (storageMap w) originalStorageId of
        None \<Rightarrow> (Inl (Error ''Original storage does not exist. Please refresh the app and try again.''), w)
      | Some originalStorage \<Rightarrow>
      (case map_of (storageMap w) targetStorageId of
        None \<Rightarrow> (Inl (Error ''Target storage does not exist. Please refresh the app and try again.''), w)
      | Some targetStorage \<Rightarrow>
          await (dbCall originalStorageId (db_getNote D noteId)) (\<lambda>found.
            case found of
              None \<Rightarrow> throw (Error ''Target note does not exist. Please refresh the app and try again.'')
            | Some originalNote \<Rightarrow>
                await (dbCall targetStorageId (db_createNote D
                         \<lparr>p_title = Some (title originalNote), p_content = Some (content originalNote),
                          p_tags = Some (tags originalNote), p_folderPathname = Some targetFolderPathname,
                          p_data = Some (data originalNote)\<rparr>)) (\<lambda>created.
                let newNote = populate (storage_id targetStorage) created in
                await (dbCall originalStorageId (db_purgeNote D (note_id originalNote))) (\<lambda>_.
                let modifiedTagsInOriginalStorage =
                      map (\<lambda>tagDoc. tagDoc\<lparr>tag_noteIdSet := tag_noteIdSet tagDoc - {note_id originalNote}\<rparr>)
                        (List.map_filter (\<lambda>tagName. map_of (tagMap originalStorage) tagName) (tags originalNote));
                    modifiedFolderInOriginalStorage =
                      (case lookupFolder (folderMap originalStorage) (folderPathname originalNote) of
                         None \<Rightarrow> None
                       | Some f \<Rightarrow> Some (f\<lparr>noteIdSet := noteIdSet f - {note_id originalNote}\<rparr>))
                in
                await (case lookupFolder (folderMap targetStorage) targetFolderPathname of
                         None \<Rightarrow> await (dbCall targetStorageId (db_getFolder D targetFolderPathname))
                                   (\<lambda>fd. ret (populateFolder fd targetFolderPathname {}))
                       | Some f \<Rightarrow> ret f) (\<lambda>targetFolder.
                await (dbCall targetStorageId (db_getFoldersByPathnames D
                         (parentFolderPathnamesToCheck U targetStorage targetFolderPathname))) (\<lambda>parentFoldersToRefresh.
                let modifiedFoldersInTargetStorage =
                      targetFolder\<lparr>noteIdSet := insert (note_id newNote) (noteIdSet targetFolder)\<rparr>
                        # emptyFolders parentFoldersToRefresh
                in
                await (awaitAll (targetTag D targetStorageId targetStorage newNote) (tags newNote))
                  (\<lambda>modifiedTagsInTargetStorage w'.
                     let w1 = modifyStorage targetStorageId
                                (moveNote_target newNote modifiedFoldersInTargetStorage modifiedTagsInTargetStorage)
                                (modifyStorage originalStorageId
                                   (moveNote_original (AList.delete (note_id originalNote) (noteMap originalStorage))
                                      modifiedFolderInOriginalStorage modifiedTagsInOriginalStorage) w');
                         w2 = queued originalStorageId w1
                     in (Inr (), if originalStorageId \<noteq> targetStorageId then queued targetStorageId w2 else w2)))))))
            w))"

section \<open>Opening a storage and ending a replication\<close>

fun addNoteToTags :: "string \<Rightarrow> string list \<Rightarrow> PopulatedTagDoc ObjectMap \<Rightarrow> error + PopulatedTagDoc ObjectMap" where
  \<comment> \<open>\<^verbatim>\<open>noteDoc.tags.forEach((tagName) => { storage.tagMap[tagName]!.noteIdSet.add(noteDoc._id) })\<close>\<close>
  "addNoteToTags nid [] tm = Inr tm"
| "addNoteToTags nid (tagName # ts) tm =
     (case map_of tm tagName of
        None \<Rightarrow> Inl TypeError
      | Some t \<Rightarrow> addNoteToTags nid ts (AList.update tagName (t\<lparr>tag_noteIdSet := insert nid (tag_noteIdSet t)\<rparr>) tm))"

fun indexNotes :: "PopulatedNoteDoc list \<Rightarrow> NoteStorage \<Rightarrow> error + NoteStorage" where
  \<comment> \<open>The loop \<^verbatim>\<open>for (const noteDoc of Object.values(noteMap))\<close> of \<^verbatim>\<open>prepareStorage\<close>\<close>
  "indexNotes [] storage = Inr storage"
| "indexNotes (noteDoc # rest) storage =
     (if trashed noteDoc then indexNotes rest storage
      else
        case lookupFolder (folderMap storage) (folderPathname noteDoc) of
          None \<Rightarrow> Inl TypeError
        | Some f \<Rightarrow>
            (case addNoteToTags (note_id noteDoc) (tags noteDoc) (tagMap storage) of
               Inl e \<Rightarrow> Inl e
             | Inr tm \<Rightarrow>
                 indexNotes rest
                   (storage\<lparr>folderMap := AList.update (folderPathname noteDoc)
                                            (Some (f\<lparr>noteIdSet := insert (note_id noteDoc) (noteIdSet f)\<rparr>))
                                            (folderMap storage),
                            tagMap := tm\<rparr>)))"

definition prepareStorage ::
  "'db NoteDb \<Rightarrow> string \<Rightarrow> string \<Rightarrow> CloudNoteStorageData option \<Rightarrow> ('db World, NoteStorage) prog" where
  \<comment> \<open>The storage object built has neither \<^verbatim>\<open>sync\<close> nor \<^verbatim>\<open>syncTimer\<close>.\<close>
  "prepareStorage D anId aName aCloudStorage =
     await (dbCall anId (db_getAllDocsMap D)) (\<lambda>docs.
       case indexNotes (map snd (all_noteMap docs))
              \<lparr>storage_id = anId, storage_name = aName, cloudStorage = aCloudStorage,
               noteMap = all_noteMap docs,
               folderMap = fold (\<lambda>(p, folderDoc) m. AList.update p (Some (populateFolder (Some folderDoc) p {})) m)
                             (all_folderMap docs) [],
               tagMap = fold (\<lambda>(n, tagDoc) m. AList.update n ((populateTag (Some tagDoc) {})\<lparr>tag_name := Some n\<rparr>) m)
                          (all_tagMap docs) [],
               sync = None, syncTimer = None\<rparr> of
         Inl e \<Rightarrow> throw e
       | Inr storage \<Rightarrow> ret storage)"

definition endSession :: "nat \<Rightarrow> 'db World \<Rightarrow> 'db World" where
  "endSession h w = w\<lparr>sessions := filter (\<lambda>s. fst s \<noteq> h) (sessions w)\<rparr>"

definition notFoundCase :: "string \<Rightarrow> bool \<Rightarrow> 'db World \<Rightarrow> 'db World" where
  \<comment> \<open>\<^verbatim>\<open>case 404:\<close> up to its \<^verbatim>\<open>break\<close>\<close>
  "notFoundCase storageId silent w =
     unlinkStorage storageId
       (if \<not> silent then pushMessage ''Not Found'' ''The cloud storage does not exist anymore.'' w else w)"

definition sizeLimitCase :: "string \<Rightarrow> bool \<Rightarrow> 'db World \<Rightarrow> 'db World" where
  \<comment> \<open>\<^verbatim>\<open>case 409:\<close>, which has no \<^verbatim>\<open>break\<close> and runs on into \<^verbatim>\<open>case 404:\<close>\<close>
  "sizeLimitCase storageId silent w =
     notFoundCase storageId silent
       (unlinkStorage storageId
          (if \<not> silent
           then pushMessage ''Size Limit''
                  ''You have reached your usage limit. Please upgrade your subscription.'' w
           else w))"

definition defaultCase :: "bool \<Rightarrow> 'db World \<Rightarrow> 'db World" where
  "defaultCase silent w =
     (if \<not> silent
      then pushMessage ''Sync Error''
             ''Failed to sync the storage. Please check Dev Tool's console to learn more information'' w
      else w)"

definition onSyncError :: "nat \<Rightarrow> nat option \<Rightarrow> ('db World, unit) prog" where
  \<comment> \<open>The \<^verbatim>\<open>'error'\<close> handler of the replication \<open>h\<close>, called with an error of the given
      \<^verbatim>\<open>status\<close>. \<^verbatim>\<open>draft[storageId]!.sync = undefined\<close> throws when the storage is gone.\<close>
  "onSyncError h status w =
     (case map_of (sessions w) h of
        None \<Rightarrow> (Inr (), w)
      | Some (storageId, silent, storage) \<Rightarrow>
          let w1 = endSession h w;
              w2 = (if status = Some 409 then sizeLimitCase storageId silent w1
                    else if status = Some 404 then notFoundCase storageId silent w1
                    else defaultCase silent w1)
          in (case map_of (storageMap w2) storageId of
                None \<Rightarrow> (Inl TypeError, w2)
              | Some st \<Rightarrow>
                  (Inr (), w2\<lparr>storageMap := AList.update storageId (st\<lparr>sync := None\<rparr>) (storageMap w2)\<rparr>)))"

definition onSyncComplete :: "'db NoteDb \<Rightarrow> nat \<Rightarrow> nat \<Rightarrow> ('db World, unit) prog" where
  \<comment> \<open>The \<^verbatim>\<open>'complete'\<close> handler of the replication \<open>h\<close>, at time \<open>now\<close>:
      \<^verbatim>\<open>draft[storageId] = syncedStorage\<close> replaces the whole storage object.\<close>
  "onSyncComplete D h now w =
     (case map_of (sessions w) h of
        None \<Rightarrow> (Inr (), w)
      | Some (storageId, silent, storage) \<Rightarrow>
          await (prepareStorage D (storage_id storage) (storage_name storage) (cloudStorage storage))
            (\<lambda>syncedStorage w1.
               case cloudStorage syncedStorage of
                 None \<Rightarrow> (Inl TypeError, w1)
               | Some c \<Rightarrow>
                   (case map_of (storageMap w1) storageId of
                      None \<Rightarrow> (Inr (), w1)
                    | Some _ \<Rightarrow>
                        (Inr (),
                         w1\<lparr>storageMap :=
                              AList.update storageId
                                (syncedStorage\<lparr>cloudStorage := Some (c\<lparr>syncedAt := Some now\<rparr>)\<rparr>)
                                (storageMap w1)\<rparr>)))
            (endSession h w))"

section \<open>A document store to run the operations on\<close>

text \<open>
  The theorems below hold for every document store and every \<^verbatim>\<open>./utils\<close>. To run an
  operation on a concrete input one store is needed: an in-memory one, following the
  interface the specification gives for the document store (section 6) and its data model
  (section 3).
\<close>

record MemDb =
  m_id :: string
  m_notes :: "NoteDoc ObjectMap"
  m_folders :: "string list"
  m_tags :: "string list"
  m_next :: nat

definition parentsOf :: "string \<Rightarrow> string list" where
  \<comment> \<open>Modelled from the spec: \<^verbatim>\<open>getAllParentFolderPathnames\<close> of \<^verbatim>\<open>./utils\<close> is not in the
      sources. The proper ancestors of a pathname, nearest first, the root \<^verbatim>\<open>/\<close> last
      ("intermediate ancestors are lazily materialized when a descendant is created").\<close>
  "parentsOf p =
     (if p = ''/'' then []
      else rev (''/'' # map (\<lambda>i. take i p) (filter (\<lambda>i. p ! i = CHR ''/'') [1..<length p])))"

definition memUtils :: Utils where
  \<comment> \<open>Modelled from the spec: the helpers of \<^verbatim>\<open>./utils\<close> and \<^verbatim>\<open>TAG_ID_PREFIX\<close> of
      \<^verbatim>\<open>./consts\<close> are not in the sources. A pathname is well-formed when it starts at the
      root; the parent of a pathname is its nearest ancestor.\<close>
  "memUtils =
     \<lparr>getAllParentFolderPathnames = parentsOf,
      getParentFolderPathname = (\<lambda>p. case parentsOf p of [] \<Rightarrow> ''/'' | q # _ \<Rightarrow> q),
      isFolderPathnameValid = (\<lambda>p. prefix ''/'' p),
      TAG_ID_PREFIX = ''tag:''\<rparr>"

definition memFolderDoc :: "string \<Rightarrow> FolderDoc" where
  \<comment> \<open>Modelled from the spec: the folder record of the document store, keyed by its path.\<close>
  "memFolderDoc p = \<lparr>folder_id = Some (''folder:'' @ p), folder_pathname = p\<rparr>"

definition memTagDoc :: "string \<Rightarrow> TagDoc" where
  \<comment> \<open>Modelled from the spec: the tag record of the document store, keyed by its name.\<close>
  "memTagDoc t = \<lparr>tag_id = Some (''tag:'' @ t), tag_name = Some t\<rparr>"

definition memUpsert :: "string \<Rightarrow> string list \<Rightarrow> MemDb \<Rightarrow> MemDb" where
  \<comment> \<open>Modelled from the spec: a write to the document store materializes the folder of the
      note with its ancestors, and the tags of the note.\<close>
  "memUpsert p ts d =
     d\<lparr>m_folders := m_folders d @ filter (\<lambda>q. q \<notin> set (m_folders d)) (remdups (rev (p # parentsOf p))),
       m_tags := m_tags d @ filter (\<lambda>t. t \<notin> set (m_tags d)) (remdups ts)\<rparr>"

definition memSetTrashed :: "bool \<Rightarrow> string \<Rightarrow> MemDb \<Rightarrow> NoteDoc option \<times> MemDb" where
  \<comment> \<open>Modelled from the spec: \<^verbatim>\<open>trashNote\<close> and \<^verbatim>\<open>untrashNote\<close> of the document store set
      the trashed flag of the record and answer it, or answer not-found.\<close>
  "memSetTrashed b i d =
     (case map_of (m_notes d) i of
        None \<Rightarrow> (None, d)
      | Some n \<Rightarrow> (Some (n\<lparr>trashed := b\<rparr>), d\<lparr>m_notes := AList.update i (n\<lparr>trashed := b\<rparr>) (m_notes d)\<rparr>))"

definition memUpdated :: "NoteDocEditibleProps \<Rightarrow> NoteDoc \<Rightarrow> NoteDoc" where
  \<comment> \<open>Modelled from the spec: \<^verbatim>\<open>updateNote\<close> of the document store overwrites the fields
      given and keeps the others.\<close>
  "memUpdated props n =
     n\<lparr>title := (case p_title props of None \<Rightarrow> title n | Some x \<Rightarrow> x),
       content := (case p_content props of None \<Rightarrow> content n | Some x \<Rightarrow> x),
       tags := (case p_tags props of None \<Rightarrow> tags n | Some x \<Rightarrow> x),
       folderPathname := (case p_folderPathname props of None \<Rightarrow> folderPathname n | Some x \<Rightarrow> x),
       data := (case p_data props of None \<Rightarrow> data n | Some x \<Rightarrow> x)\<rparr>"

definition memDb :: "MemDb NoteDb" where
  \<comment> \<open>Modelled from the spec: the document store (\<^verbatim>\<open>NoteDb\<close>) is not in the sources. Its
      methods follow section 6: create, read, update, trash, untrash and purge of notes,
      folders by pathname, tags by name, \<^verbatim>\<open>findNotesByFolder\<close>, and the enumeration of the
      whole collection. A new note gets an id no earlier note of the store had.\<close>
  "memDb =
     \<lparr>db_createFolder = (\<lambda>p d. (Inr (memFolderDoc p), memUpsert p [] d)),
      db_getFolder = (\<lambda>p d. (Inr (if p \<in> set (m_folders d) then Some (memFolderDoc p) else None), d)),
      db_getFoldersByPathnames =
        (\<lambda>ps d. (Inr (map memFolderDoc (filter (\<lambda>p. p \<in> set (m_folders d)) ps)), d)),
      db_removeFolder =
        (\<lambda>p d. (Inr (), d\<lparr>m_folders := filter (\<lambda>q. q \<noteq> p \<and> \<not> prefix (p @ ''/'') q) (m_folders d)\<rparr>)),
      db_findNotesByFolder =
        (\<lambda>p d. (Inr (filter (\<lambda>n. folderPathname n = p) (map snd (m_notes d))), d)),
      db_createNote =
        (\<lambda>props d.
           let n = memUpdated props
                     \<lparr>note_id = ''note:'' @ replicate (m_next d) (CHR ''i''), title = [], content = [],
                      tags = [], folderPathname = ''/'', trashed = False, data = []\<rparr>
           in (Inr n,
               memUpsert (folderPathname n) (tags n)
                 (d\<lparr>m_notes := AList.update (note_id n) n (m_notes d), m_next := Suc (m_next d)\<rparr>))),
      db_getNote = (\<lambda>i d. (Inr (map_of (m_notes d) i), d)),
      db_updateNote =
        (\<lambda>i props d.
           case map_of (m_notes d) i of
             None \<Rightarrow> (Inr None, d)
           | Some n \<Rightarrow>
               (Inr (Some (memUpdated props n)),
                memUpsert (folderPathname (memUpdated props n)) (tags (memUpdated props n))
                  (d\<lparr>m_notes := AList.update i (memUpdated props n) (m_notes d)\<rparr>))),
      db_trashNote = (\<lambda>i d. case memSetTrashed True i d of (r, d') \<Rightarrow> (Inr r, d')),
      db_untrashNote =
        (\<lambda>i d. case memSetTrashed False i d of
                  (None, d') \<Rightarrow> (Inl (StoreError ''not found''), d')
                | (Some n, d') \<Rightarrow> (Inr n, d')),
      db_purgeNote = (\<lambda>i d. (Inr (), d\<lparr>m_notes := AList.delete i (m_notes d)\<rparr>)),
      db_getTag = (\<lambda>t d. (Inr (if t \<in> set (m_tags d) then Some (memTagDoc t) else None), d)),
      db_removeTag =
        (\<lambda>t d. (Inr (),
                d\<lparr>m_tags := filter (\<lambda>x. x \<noteq> t) (m_tags d),
                  m_notes := map (\<lambda>(i, n). (i, n\<lparr>tags := filter (\<lambda>x. x \<noteq> t) (tags n)\<rparr>)) (m_notes d)\<rparr>)),
      db_getAllDocsMap =
        (\<lambda>d. (Inr \<lparr>all_noteMap = map (\<lambda>(i, n). (i, populate (m_id d) n)) (m_notes d),
                    all_folderMap = map (\<lambda>p. (p, memFolderDoc p)) (m_folders d),
                    all_tagMap = map (\<lambda>t. (t, memTagDoc t)) (m_tags d)\<rparr>, d))\<rparr>"

definition emptyDb :: "string \<Rightarrow> MemDb" where
  \<comment> \<open>Modelled from the spec: a document store just created holds the root folder only.\<close>
  "emptyDb i = \<lparr>m_id = i, m_notes = [], m_folders = [''/''], m_tags = [], m_next = 0\<rparr>"

definition world0 :: "NoteStorage ObjectMap \<Rightarrow> (string \<Rightarrow> MemDb) \<Rightarrow> MemDb World" where
  \<comment> \<open>A process with the given storages and document stores: auto-sync enabled, a user
      signed in, no timer armed, no replication running.\<close>
  "world0 sm ds =
     \<lparr>storageMap = sm, dbs = ds, enableAutoSync = True, userSignedIn = True, timers = [],
      sessions = [], nextHandle = 0, toasts = [], currentPathnameWithoutNoteId = ''/app'',
      routerReplaced = []\<rparr>"

subsection \<open>Storages and stores to run on\<close>

definition exFolder :: "string \<Rightarrow> string set \<Rightarrow> string \<times> PopulatedFolderDoc option" where
  \<comment> \<open>the \<^verbatim>\<open>folderMap\<close> entry of folder \<open>p\<close> with the note ids \<open>s\<close>\<close>
  "exFolder p s = (p, Some (populateFolder (Some (memFolderDoc p)) p s))"

definition exTag :: "string \<Rightarrow> string set \<Rightarrow> string \<times> PopulatedTagDoc" where
  \<comment> \<open>the \<^verbatim>\<open>tagMap\<close> entry of tag \<open>t\<close> with the note ids \<open>s\<close>\<close>
  "exTag t s = (t, populateTag (Some (memTagDoc t)) s)"

definition exNote :: "string \<Rightarrow> string \<Rightarrow> string list \<Rightarrow> bool \<Rightarrow> NoteDoc" where
  "exNote i p ts b =
     \<lparr>note_id = i, title = ''title'', content = ''content'', tags = ts, folderPathname = p,
      trashed = b, data = ''{}''\<rparr>"

definition exDb :: "NoteDoc list \<Rightarrow> string list \<Rightarrow> string list \<Rightarrow> string \<Rightarrow> MemDb" where
  \<comment> \<open>the document store of a storage, holding the given notes, folders and tags\<close>
  "exDb ns fs ts i =
     \<lparr>m_id = i, m_notes = map (\<lambda>n. (note_id n, n)) ns, m_folders = fs, m_tags = ts, m_next = 0\<rparr>"

definition exStorage ::
  "string \<Rightarrow> CloudNoteStorageData option \<Rightarrow> NoteDoc list \<Rightarrow> PopulatedFolderDoc option ObjectMap \<Rightarrow> PopulatedTagDoc ObjectMap \<Rightarrow> NoteStorage" where
  "exStorage i c ns fm tm =
     \<lparr>storage_id = i, storage_name = i, cloudStorage = c,
      noteMap = map (\<lambda>n. (note_id n, populate i n)) ns,
      folderMap = fm, tagMap = tm, sync = None, syncTimer = None\<rparr>"

definition linkedWorld :: "MemDb World" where
  \<comment> \<open>one storage \<^verbatim>\<open>S\<close>, empty and linked to a cloud storage\<close>
  "linkedWorld =
     world0 [(''S'', exStorage ''S'' (Some \<lparr>cloud_id = 1, cloud_name = ''cloud'', syncedAt = None\<rparr>)
                       [] [exFolder ''/'' {}] [])]
       (exDb [] [''/''] [])"

definition titleOnly :: "string \<Rightarrow> NoteDocEditibleProps" where
  \<comment> \<open>\<^verbatim>\<open>{ title: x }\<close>\<close>
  "titleOnly x = \<lparr>p_title = Some x, p_content = None, p_tags = None, p_folderPathname = None, p_data = None\<rparr>"

definition staleWorld :: "MemDb World" where
  \<comment> \<open>storage \<^verbatim>\<open>S\<close> whose document store holds the note \<^verbatim>\<open>n1\<close> that the index does not
      have yet\<close>
  "staleWorld =
     world0 [(''S'', exStorage ''S'' None [] [exFolder ''/'' {}] [])]
       (exDb [exNote ''n1'' ''/'' [] False] [''/''] [])"

definition cascadeWorld :: "MemDb World" where
  \<comment> \<open>storage \<^verbatim>\<open>S\<close> with note \<^verbatim>\<open>N\<close> in folder \<^verbatim>\<open>/x\<close> and note \<^verbatim>\<open>M\<close> in folder \<^verbatim>\<open>/x/y\<close>, both
      tagged \<^verbatim>\<open>t\<close>\<close>
  "cascadeWorld =
     world0 [(''S'', exStorage ''S'' None
                [exNote ''N'' ''/x'' [''t''] False, exNote ''M'' ''/x/y'' [''t''] False]
                [exFolder ''/'' {}, exFolder ''/x'' {''N''}, exFolder ''/x/y'' {''M''}]
                [exTag ''t'' {''N'', ''M''}])]
       (exDb [exNote ''N'' ''/x'' [''t''] False, exNote ''M'' ''/x/y'' [''t''] False]
             [''/'', ''/x'', ''/x/y''] [''t''])"

definition renameWorld :: "MemDb World" where
  \<comment> \<open>storage \<^verbatim>\<open>S\<close> with the folders \<^verbatim>\<open>/a\<close>, \<^verbatim>\<open>/a/x\<close> (holding note \<^verbatim>\<open>M\<close>) and \<^verbatim>\<open>/b\<close>\<close>
  "renameWorld =
     world0 [(''S'', exStorage ''S'' None [exNote ''M'' ''/a/x'' [] False]
                [exFolder ''/'' {}, exFolder ''/a'' {}, exFolder ''/a/x'' {''M''}, exFolder ''/b'' {}] [])]
       (exDb [exNote ''M'' ''/a/x'' [] False] [''/'', ''/a'', ''/a/x'', ''/b''] [])"



definition exProps :: NoteDocEditibleProps where
  \<comment> \<open>a note titled \<^verbatim>\<open>x\<close> for the folder \<^verbatim>\<open>/x/z\<close>, tagged \<^verbatim>\<open>t\<close> and \<^verbatim>\<open>u\<close>\<close>
  "exProps = \<lparr>p_title = Some ''x'', p_content = None, p_tags = Some [''t'', ''u''],
              p_folderPathname = Some ''/x/z'', p_data = None\<rparr>"

definition keepsSnapshot :: "('db World, 'a) prog \<Rightarrow> bool" where
  \<comment> \<open>a step that leaves \<^verbatim>\<open>storageMap\<close> as it is, whatever it answers\<close>
  "keepsSnapshot m = (\<forall>w r w'. m w = (r, w') \<longrightarrow> storageMap w' = storageMap w)"

section \<open>Basic facts\<close>

lemmas scheduler_defs =
  syncStorage_def queueSyncingStorage_def cancelSyncingStorageQueue_def fireTimer_def
  unlinkStorage_def clearTimeout_def pushMessage_def onSyncError_def endSession_def
  notFoundCase_def sizeLimitCase_def defaultCase_def

lemmas example_defs =
  world0_def exStorage_def exFolder_def exTag_def exNote_def exDb_def linkedWorld_def
  titleOnly_def staleWorld_def cascadeWorld_def renameWorld_def

lemmas prog_defs =
  ret_def throw_def await_def dbCall_def modifyStorage_def queued_def Let_def

lemmas mem_defs =
  memDb_def memUtils_def memFolderDoc_def memTagDoc_def memUpsert_def memSetTrashed_def
  memUpdated_def emptyDb_def parentsOf_def

lemmas step_defs =
  populate_def NoteDoc.defs PopulatedNoteDoc.defs lookupFolder_def spread_def startsWith_def
  split_slash_def replaceHead_def difference_def populateFolder_def populateTag_def
  emptyFolders_def putFolders_def parentFolderPathnamesToCheck_def folderWithNote_def
  tagWithNote_def modifiedTagsWithNote_def

subsection \<open>Association lists as dictionaries\<close>

lemma map_of_spread:
  "distinct (map fst b) \<Longrightarrow>
   map_of (spread a b) k = (case map_of b k of None \<Rightarrow> map_of a k | Some v \<Rightarrow> Some v)"
proof (induction b arbitrary: a)
  case Nil
  then show ?case by (simp add: spread_def)
next
  case (Cons kv b)
  obtain k0 v0 where kv: "kv = (k0, v0)" by (cases kv)
  from Cons.prems kv have d: "distinct (map fst b)" and nk: "map_of b k0 = None"
    by (auto simp: map_of_eq_None_iff)
  have "spread a (kv # b) = spread (AList.update k0 v0 a) b"
    by (simp add: spread_def kv)
  then show ?case
    using Cons.IH [OF d, of "AList.update k0 v0 a"] nk
    by (auto simp: kv update_conv split: option.splits)
qed


lemma distinct_fold_update:
  "distinct (map fst acc) \<Longrightarrow> distinct (map fst (fold (\<lambda>x m. AList.update (kf x) (vf x m) m) xs acc))"
  by (induction xs arbitrary: acc) (auto simp: distinct_update)

lemma populateFolder_sel:
  "noteIdSet (populateFolder fd p s) = s" "folder_pathname (populateFolder fd p s) = p"
  by (simp_all add: populateFolder_def)

lemma populateTag_sel:
  "tag_noteIdSet (populateTag td s) = s"
  by (simp add: populateTag_def)

lemma putFolders_Cons:
  "putFolders (f # fs) fm = putFolders fs (AList.update (folder_pathname f) (Some f) fm)"
  by (simp add: putFolders_def)

lemma putFolders_other:
  "p \<notin> folder_pathname ` set fs \<Longrightarrow> map_of (putFolders fs fm) p = map_of fm p"
  by (induction fs arbitrary: fm) (auto simp: putFolders_Cons update_conv, simp add: putFolders_def)

lemma putFolders_last:
  "fl \<noteq> [] \<Longrightarrow> map_of (putFolders fl fm) (folder_pathname (last fl)) = Some (Some (last fl))"
  by (induction fl rule: rev_induct) (simp_all add: putFolders_def update_conv)

lemma putFolders_empty_or_old:
  "map_of (putFolders (emptyFolders ps) fm) p = Some v \<Longrightarrow>
   map_of fm p = Some v \<or> (\<exists>f. v = Some f \<and> noteIdSet f = {})"
proof (induction ps arbitrary: fm)
  case Nil
  then show ?case by (simp add: putFolders_def emptyFolders_def)
next
  case (Cons a ps)
  from Cons.prems have "map_of (putFolders (emptyFolders ps)
          (AList.update (folder_pathname a) (Some (populateFolder (Some a) (folder_pathname a) {})) fm)) p = Some v"
    by (simp add: emptyFolders_def putFolders_Cons populateFolder_sel)
  from Cons.IH [OF this] show ?case
    by (auto simp: update_conv populateFolder_sel split: if_splits)
qed

lemma emptyFolders_pathnames:
  "folder_pathname ` set (emptyFolders ps) = folder_pathname ` set ps"
  by (auto simp: emptyFolders_def populateFolder_def image_iff)

subsection \<open>Steps of an operation\<close>

text \<open>
  What a successful \<^verbatim>\<open>await\<close> says about the steps inside it; the calls of the document
  store leave \<^verbatim>\<open>storageMap\<close> alone; the storage an operation has written is the one found
  after \<^verbatim>\<open>queueSyncingStorage\<close>, which touches \<^verbatim>\<open>syncTimer\<close> only.
\<close>

lemma awaitE:
  assumes "await m f w = (Inr r, w')"
  obtains x w1 where "m w = (Inr x, w1)" and "f x w1 = (Inr r, w')"
  using assms by (auto simp: await_def split: prod.splits sum.splits)

lemma dbCallE:
  assumes "dbCall sid m w = (r, w')"
  obtains d where "m (dbs w sid) = (r, d)" and "storageMap w' = storageMap w"
  using assms by (auto simp: dbCall_def split: prod.splits)

lemma keepsSnapshotD:
  "keepsSnapshot m \<Longrightarrow> m w = (r, w') \<Longrightarrow> storageMap w' = storageMap w"
  by (auto simp: keepsSnapshot_def)

lemma keeps_ret: "keepsSnapshot (ret x)"
  by (simp add: keepsSnapshot_def ret_def)

lemma keeps_throw: "keepsSnapshot (throw e)"
  by (simp add: keepsSnapshot_def throw_def)

lemma keeps_dbCall: "keepsSnapshot (dbCall sid m)"
  by (auto simp: keepsSnapshot_def dbCall_def split: prod.splits)

lemma keeps_await:
  "keepsSnapshot m \<Longrightarrow> (\<And>x. keepsSnapshot (f x)) \<Longrightarrow> keepsSnapshot (await m f)"
  unfolding keepsSnapshot_def await_def
  by (auto split: prod.splits sum.splits)

lemma keeps_awaitAll:
  assumes "\<And>x. keepsSnapshot (f x)"
  shows "keepsSnapshot (awaitAll f xs)"
  unfolding keepsSnapshot_def
proof (induction xs)
  case Nil
  then show ?case by simp
next
  case (Cons x xs)
  show ?case
  proof (intro allI impI)
    fix w r w' assume run: "awaitAll f (x # xs) w = (r, w')"
    obtain r1 w1 where 1: "f x w = (r1, w1)" by (cases "f x w")
    obtain r2 w2 where 2: "awaitAll f xs w1 = (r2, w2)" by (cases "awaitAll f xs w1")
    from run 1 2 have "w' = w2" by (auto split: sum.splits)
    moreover from keepsSnapshotD [OF assms 1] have "storageMap w1 = storageMap w" .
    moreover from Cons.IH 2 have "storageMap w2 = storageMap w1" by blast
    ultimately show "storageMap w' = storageMap w" by simp
  qed
qed

lemma keeps_folderWithNote: "keepsSnapshot (folderWithNote D sid S n)"
  by (auto simp: folderWithNote_def intro!: keeps_await keeps_dbCall keeps_ret split: option.splits)

lemma keeps_tagWithNote: "keepsSnapshot (tagWithNote D sid S n t)"
  by (auto simp: tagWithNote_def intro!: keeps_await keeps_dbCall keeps_ret split: option.splits)

lemma keeps_modifiedTagsWithNote: "keepsSnapshot (modifiedTagsWithNote U D sid S n)"
  by (auto simp: modifiedTagsWithNote_def
           intro!: keeps_await keeps_awaitAll keeps_tagWithNote keeps_ret keeps_throw split: sum.splits)

lemma keeps_renameOne: "keepsSnapshot (renameOne D sid p q a)"
  by (auto simp: renameOne_def Let_def
           intro!: keeps_await keeps_awaitAll keeps_dbCall keeps_ret keeps_throw split: option.splits)

lemma queued_index:
  "map_of (storageMap w) sid = Some s \<Longrightarrow>
   \<exists>s'. map_of (storageMap (queued sid w)) sid = Some s'
      \<and> noteMap s' = noteMap s \<and> folderMap s' = folderMap s \<and> tagMap s' = tagMap s"
  by (auto simp: queued_def queueSyncingStorage_def clearTimeout_def Let_def update_conv split: option.splits)


lemma modifyStorage_at:
  "map_of (storageMap w) sid = Some s \<Longrightarrow> map_of (storageMap (modifyStorage sid f w)) sid = Some (f s)"
  by (simp add: modifyStorage_def update_conv)


lemma folderWithNote_result:
  assumes "folderWithNote D sid S n w = (Inr f, w')"
  shows "storageMap w' = storageMap w"
    and "noteIdSet f = insert (note_id n)
           (case lookupFolder (folderMap S) (folderPathname n) of None \<Rightarrow> {} | Some f0 \<Rightarrow> noteIdSet f0)"
  using assms
  by (auto simp: folderWithNote_def ret_def populateFolder_sel elim!: awaitE dbCallE split: option.splits)

lemma folderWithNote_pathname:
  assumes "folderWithNote D sid S n w = (Inr f, w')"
    and "\<forall>p g. lookupFolder (folderMap S) p = Some g \<longrightarrow> folder_pathname g = p"
  shows "folder_pathname f = folderPathname n"
  using assms
  by (auto simp: folderWithNote_def ret_def populateFolder_sel elim!: awaitE dbCallE split: option.splits)

lemma folderWithNote_files_note:
  assumes "folderWithNote D sid S n w = (Inr f, w')"
    and "\<forall>p g. lookupFolder (folderMap S) p = Some g \<longrightarrow> folder_pathname g = p"
  shows "storageMap w' = storageMap w \<and> folder_pathname f = folderPathname n \<and> note_id n \<in> noteIdSet f"
  using folderWithNote_result [OF assms(1)] folderWithNote_pathname [OF assms] by simp

lemma tagWithNote_result:
  assumes "tagWithNote D sid S n t w = (Inr r, w')"
    and "\<forall>t e. map_of (tagMap S) t = Some e \<longrightarrow> (\<forall>i. tag_id e = Some i \<longrightarrow> replaceFirst pfx i = t)"
    and "\<forall>t d x d'. db_getTag D t d = (Inr (Some x), d') \<longrightarrow> (\<forall>i. tag_id x = Some i \<longrightarrow> replaceFirst pfx i = t)"
  shows "storageMap w' = storageMap w"
    and "tag_noteIdSet r = insert (note_id n)
           (case map_of (tagMap S) t of None \<Rightarrow> {} | Some e \<Rightarrow> tag_noteIdSet e)"
    and "\<forall>i. tag_id r = Some i \<longrightarrow> replaceFirst pfx i = t"
  using assms
  by (auto simp: tagWithNote_def ret_def populateTag_def elim!: awaitE dbCallE split: option.splits) blast

lemma awaitAll_Inr:
  assumes "awaitAll f xs w = (Inr rs, w')"
    and "\<And>x w r w'. f x w = (Inr r, w') \<Longrightarrow> storageMap w' = storageMap w \<and> P x r"
  shows "storageMap w' = storageMap w \<and> list_all2 P xs rs"
  using assms(1)
proof (induction xs arbitrary: w rs w')
  case Nil
  then show ?case by simp
next
  case (Cons x xs)
  from Cons.prems obtain a w1 as where a: "f x w = (Inr a, w1)" and as: "awaitAll f xs w1 = (Inr as, w')"
    and rs: "rs = a # as"
    by (auto split: prod.splits sum.splits)
  from assms(2) [OF a] Cons.IH [OF as] show ?case
    by (simp add: rs)
qed

section \<open>Properties of the sync scheduler\<close>

text \<open>
  What the \<^verbatim>\<open>'error'\<close> handler does by status. For 404 the storage is unlinked and one
  notice is pushed unless the call was silent; for any status other than 404 and 409 the
  generic notice is pushed, the link is kept and \<^verbatim>\<open>sync\<close> is cleared.
\<close>

lemma onSyncError_not_found:
  assumes "map_of (sessions w) h = Some (sid, silent, s0)"
    and "map_of (storageMap w) sid = Some s"
  shows "\<exists>w'. onSyncError h (Some 404) w = (Inr (), w')
           \<and> toasts w' = toasts w @ (if silent then [] else [(''Not Found'', ''The cloud storage does not exist anymore.'')])
           \<and> map_of (storageMap w') sid = Some (s\<lparr>cloudStorage := None, sync := None\<rparr>)"
  using assms by (simp add: scheduler_defs Let_def update_conv)

lemma onSyncError_other:
  assumes "map_of (sessions w) h = Some (sid, silent, s0)"
    and "map_of (storageMap w) sid = Some s"
    and "status \<noteq> Some 404" and "status \<noteq> Some 409"
  shows "\<exists>w'. onSyncError h status w = (Inr (), w')
           \<and> toasts w' = toasts w @ (if silent then []
                 else [(''Sync Error'', ''Failed to sync the storage. Please check Dev Tool's console to learn more information'')])
           \<and> map_of (storageMap w') sid = Some (s\<lparr>sync := None\<rparr>)"
  using assms by (simp add: scheduler_defs Let_def update_conv)

text \<open>For 409 the storage is unlinked as well, and both notices are pushed.\<close>

lemma onSyncError_quota:
  assumes "map_of (sessions w) h = Some (sid, silent, s0)"
    and "map_of (storageMap w) sid = Some s"
  shows "\<exists>w'. onSyncError h (Some 409) w = (Inr (), w')
           \<and> toasts w' = toasts w @ (if silent then []
                 else [(''Size Limit'', ''You have reached your usage limit. Please upgrade your subscription.''),
                       (''Not Found'', ''The cloud storage does not exist anymore.'')])
           \<and> map_of (storageMap w') sid = Some (s\<lparr>cloudStorage := None, sync := None\<rparr>)"
  using assms by (simp add: scheduler_defs Let_def update_conv)

text \<open>
  C8 (replication error classification). The claim asks for exactly one notice, fitting
  the condition, when a replication fails with status 404 or 409 and the call was not
  silent. \<^verbatim>\<open>case 409:\<close> has no \<^verbatim>\<open>break\<close>: after its own notice and unlink it runs the
  statements of \<^verbatim>\<open>case 404:\<close>. For a replication of storage \<^verbatim>\<open>S\<close> started with
  \<^verbatim>\<open>silent = false\<close> that fails with status 409 the handler returns, the storage is
  unlinked and idle, and two notices have been pushed: "Size Limit" and then "Not Found".
\<close>

theorem C8_quota_error_pushes_two_notices:
  "fst (onSyncError 0 (Some 409) (syncStorage ''S'' False linkedWorld)) = Inr ()
   \<and> toasts (snd (onSyncError 0 (Some 409) (syncStorage ''S'' False linkedWorld))) =
       [(''Size Limit'', ''You have reached your usage limit. Please upgrade your subscription.''),
        (''Not Found'', ''The cloud storage does not exist anymore.'')]
   \<and> map (\<lambda>(k, s). (k, cloudStorage s, sync s))
         (storageMap (snd (onSyncError 0 (Some 409) (syncStorage ''S'' False linkedWorld)))) =
       [(''S'', None, None)]"
  by (simp add: scheduler_defs example_defs Let_def)

text \<open>
  The parts of the scheduler's discipline that hold in every state: \<^verbatim>\<open>queueSyncingStorage\<close>
  clears the timer the storage records before it arms the new one,
  \<^verbatim>\<open>cancelSyncingStorageQueue\<close> clears it and arms none, and \<^verbatim>\<open>syncStorage\<close> starts nothing
  when a replication is recorded or the storage has no cloud storage.
\<close>

lemma queueSyncingStorage_replaces_recorded_timer:
  assumes "enableAutoSync w" and "map_of (storageMap w) sid = Some s" and "syncTimer s = Some t"
  shows "timers (queueSyncingStorage sid delay w) =
           filter (\<lambda>x. fst x \<noteq> t) (timers w) @ [(nextHandle w, sid, delay)]"
    and "map_of (storageMap (queueSyncingStorage sid delay w)) sid = Some (s\<lparr>syncTimer := Some (nextHandle w)\<rparr>)"
  using assms by (simp_all add: scheduler_defs Let_def update_conv)

lemma cancelSyncingStorageQueue_clears_recorded_timer:
  assumes "map_of (storageMap w) sid = Some s" and "syncTimer s = Some t"
  shows "timers (cancelSyncingStorageQueue sid w) = filter (\<lambda>x. fst x \<noteq> t) (timers w)"
    and "map_of (storageMap (cancelSyncingStorageQueue sid w)) sid = Some (s\<lparr>syncTimer := None\<rparr>)"
  using assms by (simp_all add: scheduler_defs Let_def update_conv)

lemma syncStorage_refused:
  assumes "map_of (storageMap w) sid = Some s" and "sync s \<noteq> None \<or> cloudStorage s = None"
  shows "syncStorage sid silent w = w"
  using assms by (auto simp: scheduler_defs)

lemma indexNotes_syncTimer:
  "indexNotes ns st = Inr st' \<Longrightarrow> syncTimer st' = syncTimer st"
  by (induction ns st rule: indexNotes.induct) (auto split: if_splits option.splits sum.splits)

lemma prepareStorage_syncTimer:
  assumes "prepareStorage D i n c w = (Inr st, w')"
  shows "syncTimer st = None \<and> timers w' = timers w \<and> storageMap w' = storageMap w"
  using assms
  by (auto simp: prepareStorage_def ret_def throw_def dbCall_def
           elim!: awaitE dest!: indexNotes_syncTimer split: sum.splits prod.splits)

text \<open>
  The \<^verbatim>\<open>'complete'\<close> handler in every state: the storage it writes records no timer, and no
  timer is cleared.
\<close>

lemma onSyncComplete_forgets_timer:
  assumes "map_of (sessions w) h = Some (sid, silent, s0)"
    and "map_of (storageMap w) sid = Some s"
    and "onSyncComplete D h now w = (Inr (), w')"
  shows "timers w' = timers w"
    and "\<exists>s'. map_of (storageMap w') sid = Some s' \<and> syncTimer s' = None"
  using assms
  by (auto simp: onSyncComplete_def endSession_def update_conv
           elim!: awaitE dest!: prepareStorage_syncTimer split: option.splits)

text \<open>
  C9 (at most one armed timer per storage). The \<^verbatim>\<open>'complete'\<close> handler replaces the storage
  object by the one \<^verbatim>\<open>prepareStorage\<close> builds, which has no \<^verbatim>\<open>syncTimer\<close>: the handle of the
  timer armed meanwhile is forgotten, and the next \<^verbatim>\<open>queueSyncingStorage\<close> clears nothing.
  With auto-sync on and storage \<^verbatim>\<open>S\<close> linked: a 30 second timer is queued and fires (the
  replication 1 starts, the hourly timer 2 is armed), the replication completes, and a
  second 30 second timer is queued after an edit. Two timers are then armed for \<^verbatim>\<open>S\<close>.
\<close>

theorem C9_two_timers_armed_after_complete:
  "timers (queueSyncingStorage ''S'' autoSyncDebounceWaitingTime
             (snd (onSyncComplete memDb 1 77
                (fireTimer 0 (queueSyncingStorage ''S'' autoSyncDebounceWaitingTime linkedWorld))))) =
     [(2, ''S'', autoSyncIntervalTime), (3, ''S'', autoSyncDebounceWaitingTime)]"
  by (simp add: scheduler_defs example_defs onSyncComplete_def prepareStorage_def prog_defs mem_defs step_defs)

section \<open>Unknown storages, missing notes\<close>

text \<open>
  C3, as the claim states it: an operation invoked with an unknown storage id raises a
  not-found error. \<^verbatim>\<open>createNote\<close> on the storage id \<^verbatim>\<open>T\<close>, which \<^verbatim>\<open>storageMap\<close> does not
  have, raises nothing: it resolves to \<^verbatim>\<open>undefined\<close>.
\<close>

theorem C3_createNote_unknown_storage_resolves:
  "createNote memUtils memDb ''T'' (titleOnly ''x'') staleWorld = (Inr None, staleWorld)"
  by (simp add: createNote_def example_defs)

text \<open>
  C3, amended. With an unknown storage id every operation returns at its guard
  \<^verbatim>\<open>if (storage == null) return\<close>, without an error and with the whole state unchanged;
  only \<^verbatim>\<open>moveNoteToOtherStorage\<close> raises, a plain \<^verbatim>\<open>Error\<close>, when the original or the target
  storage is unknown. When the storage is known and the document store answers that the
  note is missing, \<^verbatim>\<open>trashNote\<close> and \<^verbatim>\<open>updateNote\<close> resolve to \<^verbatim>\<open>undefined\<close> and
  \<^verbatim>\<open>moveNoteToOtherStorage\<close> raises an \<^verbatim>\<open>Error\<close>; \<^verbatim>\<open>storageMap\<close> is unchanged in the three.
\<close>

theorem C3_unknown_storage_or_missing_note:
  "(map_of (storageMap w) sid = None \<longrightarrow>
      createNote U D sid props w = (Inr None, w)
    \<and> updateNote U D sid nid props w = (Inr None, w)
    \<and> trashNote D sid nid w = (Inr None, w)
    \<and> untrashNote U D sid nid w = (Inr None, w)
    \<and> purgeNote D sid nid w = (Inr (), w)
    \<and> createFolder U D sid p w = (Inr (), w)
    \<and> renameFolder U D sid p q w = (Inr (), w)
    \<and> removeFolder U D sid p w = (Inr (), w)
    \<and> removeTag D sid t w = (Inr (), w)
    \<and> moveNoteToOtherStorage U D sid nid tid p w =
        (Inl (Error ''Original storage does not exist. Please refresh the app and try again.''), w)
    \<and> (map_of (storageMap w) oid \<noteq> None \<longrightarrow>
         moveNoteToOtherStorage U D oid nid sid p w =
           (Inl (Error ''Target storage does not exist. Please refresh the app and try again.''), w)))
   \<and> (map_of (storageMap w) sid \<noteq> None \<longrightarrow>
        (db_trashNote D nid (dbs w sid) = (Inr None, d) \<longrightarrow>
           fst (trashNote D sid nid w) = Inr None
         \<and> storageMap (snd (trashNote D sid nid w)) = storageMap w)
      \<and> (db_getNote D nid (dbs w sid) = (Inr prev, d) \<longrightarrow> db_updateNote D nid props d = (Inr None, d') \<longrightarrow>
           fst (updateNote U D sid nid props w) = Inr None
         \<and> storageMap (snd (updateNote U D sid nid props w)) = storageMap w)
      \<and> (map_of (storageMap w) tid \<noteq> None \<longrightarrow> db_getNote D nid (dbs w sid) = (Inr None, d) \<longrightarrow>
           fst (moveNoteToOtherStorage U D sid nid tid p w) =
             Inl (Error ''Target note does not exist. Please refresh the app and try again.'')
         \<and> storageMap (snd (moveNoteToOtherStorage U D sid nid tid p w)) = storageMap w))"
  by (auto simp: createNote_def updateNote_def trashNote_def untrashNote_def purgeNote_def createFolder_def
        renameFolder_def removeFolder_def removeTag_def moveNoteToOtherStorage_def
        await_def dbCall_def ret_def throw_def)

theorem C3_unknown_storage_or_missing_note_witness:
  "map_of (storageMap staleWorld) ''T'' = None
   \<and> map_of (storageMap staleWorld) ''S'' \<noteq> None
   \<and> db_trashNote memDb ''zz'' (dbs staleWorld ''S'') = (Inr None, dbs staleWorld ''S'')
   \<and> db_getNote memDb ''zz'' (dbs staleWorld ''S'') = (Inr None, dbs staleWorld ''S'')
   \<and> db_updateNote memDb ''zz'' (titleOnly ''x'') (dbs staleWorld ''S'') = (Inr None, dbs staleWorld ''S'')
   \<and> createNote memUtils memDb ''T'' (titleOnly ''x'') staleWorld = (Inr None, staleWorld)
   \<and> moveNoteToOtherStorage memUtils memDb ''S'' ''n1'' ''T'' ''/'' staleWorld =
        (Inl (Error ''Target storage does not exist. Please refresh the app and try again.''), staleWorld)
   \<and> fst (trashNote memDb ''S'' ''zz'' staleWorld) = Inr None
   \<and> storageMap (snd (trashNote memDb ''S'' ''zz'' staleWorld)) = storageMap staleWorld
   \<and> fst (updateNote memUtils memDb ''S'' ''zz'' (titleOnly ''x'') staleWorld) = Inr None
   \<and> fst (moveNoteToOtherStorage memUtils memDb ''S'' ''zz'' ''S'' ''/'' staleWorld) =
        Inl (Error ''Target note does not exist. Please refresh the app and try again.'')"
  using C3_unknown_storage_or_missing_note
          [where w = staleWorld and sid = "''T''" and U = memUtils and D = memDb
             and props = "titleOnly ''x''" and nid = "''n1''" and p = "''/''" and oid = "''S''"]
        C3_unknown_storage_or_missing_note
          [where w = staleWorld and sid = "''S''" and U = memUtils and D = memDb
             and props = "titleOnly ''x''" and nid = "''zz''" and p = "''/''" and tid = "''S''"
             and d = "dbs staleWorld ''S''" and d' = "dbs staleWorld ''S''" and prev = None]
  by (simp add: example_defs memDb_def memSetTrashed_def)

text \<open>
  For every document store: when the store has updated a note that \<^verbatim>\<open>noteMap\<close> does not
  hold, \<^verbatim>\<open>updateNote\<close> ends in an error and \<^verbatim>\<open>storageMap\<close> is unchanged.
\<close>

lemma updateNote_stale_index_throws:
  assumes "map_of (storageMap w) sid = Some S"
    and "db_getNote D nid (dbs w sid) = (Inr prev, d1)"
    and "db_updateNote D nid props d1 = (Inr (Some u), d2)"
    and "map_of (noteMap S) (note_id u) = None"
  shows "\<exists>e. fst (updateNote U D sid nid props w) = Inl e"
    and "storageMap (snd (updateNote U D sid nid props w)) = storageMap w"
  using assms
  by (auto simp: updateNote_def await_def dbCall_def Let_def throw_def ret_def folderWithNote_def
        populate_def NoteDoc.defs PopulatedNoteDoc.defs
        split: prod.splits sum.splits option.splits)

text \<open>
  C7 (\<^verbatim>\<open>updateNote\<close> on a stale index). The document store of \<^verbatim>\<open>S\<close> holds the note \<^verbatim>\<open>n1\<close> and
  the index of \<^verbatim>\<open>S\<close> does not. \<^verbatim>\<open>updateNote\<close> has the store update the note, and then reads
  \<^verbatim>\<open>storage.noteMap[noteDoc._id]!.tags\<close> to find the tags the note lost: it throws a
  \<^verbatim>\<open>TypeError\<close>, after the write and before the index is touched.
\<close>

theorem C7_updateNote_throws_on_stale_index:
  "fst (updateNote memUtils memDb ''S'' ''n1'' (titleOnly ''x'') staleWorld) = Inl TypeError
   \<and> map_of (m_notes (dbs (snd (updateNote memUtils memDb ''S'' ''n1'' (titleOnly ''x'') staleWorld)) ''S'')) ''n1''
       = Some ((exNote ''n1'' ''/'' [] False)\<lparr>title := ''x''\<rparr>)
   \<and> storageMap (snd (updateNote memUtils memDb ''S'' ''n1'' (titleOnly ''x'') staleWorld)) = storageMap staleWorld"
  by (simp add: updateNote_def updateNote_draft_def prog_defs mem_defs step_defs example_defs)

section \<open>The folder and tag index\<close>

text \<open>
  For every document store: \<^verbatim>\<open>trashNote\<close> on a note whose folder has no entry binds the
  pathname of the folder to \<^verbatim>\<open>undefined\<close>.
\<close>

lemma trashNote_missing_folder:
  assumes "map_of (storageMap w) sid = Some S"
    and "db_trashNote D nid (dbs w sid) = (Inr (Some u), d)"
    and "lookupFolder (folderMap S) (folderPathname u) = None"
  shows "\<exists>w' S'. trashNote D sid nid w = (Inr (Some (populate sid u)), w')
           \<and> map_of (storageMap w') sid = Some S'
           \<and> map_of (folderMap S') (folderPathname u) = Some None"
proof -
  define n where "n = populate sid u"
  have fp: "folderPathname n = folderPathname u"
    by (simp add: n_def populate_def NoteDoc.defs PopulatedNoteDoc.defs)
  define w1 where "w1 = w\<lparr>dbs := (dbs w)(sid := d)\<rparr>"
  define draft where "draft = trashNote_draft S n None (tagsWithoutNote S (note_id n) (tags n))"
  have run: "trashNote D sid nid w = (Inr (Some n), queued sid (modifyStorage sid draft w1))"
    using assms
    by (simp add: trashNote_def await_def dbCall_def Let_def n_def [symmetric] fp w1_def draft_def)
  have "map_of (storageMap w1) sid = Some S" using assms(1) by (simp add: w1_def)
  from queued_index [OF modifyStorage_at [OF this, of draft]]
  obtain S' where "map_of (storageMap (queued sid (modifyStorage sid draft w1))) sid = Some S'"
    and "folderMap S' = AList.update (folderPathname u) None (folderMap S)"
    by (auto simp: draft_def trashNote_draft_def fp)
  with run show ?thesis
    by (intro exI [of _ "queued sid (modifyStorage sid draft w1)"] exI [of _ S'])
       (simp add: n_def update_conv)
qed

text \<open>
  C10 (every key of \<^verbatim>\<open>folderMap\<close> is bound to a folder entry). \<^verbatim>\<open>trashNote\<close> assigns its
  local \<^verbatim>\<open>folder\<close> to \<^verbatim>\<open>folderMap[noteDoc.folderPathname]\<close> also when it left it
  \<^verbatim>\<open>undefined\<close>, which it does when the folder has no entry. In storage \<^verbatim>\<open>S\<close>, removing the
  folder \<^verbatim>\<open>/x\<close> of note \<^verbatim>\<open>N\<close> and then trashing \<^verbatim>\<open>N\<close> leaves the key \<^verbatim>\<open>/x\<close> in \<^verbatim>\<open>folderMap\<close>,
  bound to \<^verbatim>\<open>undefined\<close>.
\<close>

theorem C10_trashNote_binds_folder_key_to_undefined:
  "map (\<lambda>(k, v). (k, v = None))
     (folderMap (the (map_of (storageMap (snd (trashNote memDb ''S'' ''N''
        (snd (removeFolder memUtils memDb ''S'' ''/x'' cascadeWorld))))) ''S'')))
   = [(''/'', False), (''/x'', True)]"
  by (simp add: removeFolder_def removeFolder_draft_def trashedByFolders_def noteTags_def routerReplace_def
       trashNote_def trashNote_draft_def tagsWithoutNote_def
       scheduler_defs prog_defs mem_defs step_defs example_defs)

lemma updateNote_draft_indexes:
  assumes "map_of (storageMap we) sid = Some S" and "fl \<noteq> []"
    and "folder_pathname (last fl) = folderPathname n" and "note_id n \<in> noteIdSet (last fl)"
  shows "\<exists>S'. map_of (storageMap (queued sid (modifyStorage sid (updateNote_draft S n fl rem mt) we))) sid = Some S'
           \<and> map_of (noteMap S') (note_id n) = Some n
           \<and> (\<exists>g. lookupFolder (folderMap S') (folderPathname n) = Some g \<and> note_id n \<in> noteIdSet g)"
proof -
  from queued_index [OF modifyStorage_at [OF assms(1), of "updateNote_draft S n fl rem mt"]]
  obtain S' where S': "map_of (storageMap (queued sid (modifyStorage sid (updateNote_draft S n fl rem mt) we))) sid = Some S'"
    and nm: "noteMap S' = AList.update (note_id n) n (noteMap S)"
    and fm: "folderMap S' = putFolders fl (folderMap S)"
    by (auto simp: updateNote_draft_def)
  have "lookupFolder (folderMap S') (folderPathname n) = Some (last fl)"
    using putFolders_last [OF assms(2), of "folderMap S"] assms(3)
    by (simp add: fm lookupFolder_def)
  with S' nm assms(4) show ?thesis
    by (intro exI [of _ S']) (simp add: update_conv)
qed

text \<open>
  Whenever \<^verbatim>\<open>updateNote\<close> returns a note, trashed or not, the id of the note is in the
  \<^verbatim>\<open>noteIdSet\<close> of its folder (for a storage whose folder entries are filed under their own
  pathnames).
\<close>

lemma updateNote_indexes_returned_note:
  assumes S: "map_of (storageMap w) sid = Some S"
    and returned: "updateNote U D sid nid props w = (Inr (Some n), w')"
    and filed: "\<forall>p g. lookupFolder (folderMap S) p = Some g \<longrightarrow> folder_pathname g = p"
  shows "\<exists>S'. map_of (storageMap w') sid = Some S'
           \<and> map_of (noteMap S') (note_id n) = Some n
           \<and> (\<exists>f. lookupFolder (folderMap S') (folderPathname n) = Some f \<and> note_id n \<in> noteIdSet f)"
  using returned S
  by (auto simp: updateNote_def Let_def ret_def throw_def
           elim!: awaitE dbCallE split: option.splits sum.splits if_splits
           dest!: folderWithNote_files_note [OF _ filed] keepsSnapshotD [OF keeps_modifiedTagsWithNote]
           intro!: updateNote_draft_indexes)

text \<open>
  C1 (cross-index consistency). \<^verbatim>\<open>prepareStorage\<close> and \<^verbatim>\<open>trashNote\<close> keep trashed notes out
  of every \<^verbatim>\<open>noteIdSet\<close>; \<^verbatim>\<open>updateNote\<close> adds the id of the note it updated to the folder
  and the tags of the note without looking at \<^verbatim>\<open>trashed\<close>. In storage \<^verbatim>\<open>S\<close>, after
  \<^verbatim>\<open>trashNote\<close> and then \<^verbatim>\<open>updateNote\<close> (a new title) on note \<^verbatim>\<open>N\<close>, the note is trashed in
  \<^verbatim>\<open>noteMap\<close> and its id is in the \<^verbatim>\<open>noteIdSet\<close> of its folder \<^verbatim>\<open>/x\<close> and of its tag \<^verbatim>\<open>t\<close>.
\<close>

theorem C1_updateNote_indexes_trashed_note:
  "fst (updateNote memUtils memDb ''S'' ''N'' (titleOnly ''x'') (snd (trashNote memDb ''S'' ''N'' cascadeWorld))) =
     Inr (Some (populate ''S'' ((exNote ''N'' ''/x'' [''t''] True)\<lparr>title := ''x''\<rparr>)))
   \<and> map (\<lambda>(k, n). (k, trashed n))
        (noteMap (the (map_of (storageMap (snd (updateNote memUtils memDb ''S'' ''N'' (titleOnly ''x'')
           (snd (trashNote memDb ''S'' ''N'' cascadeWorld))))) ''S''))) = [(''N'', True), (''M'', False)]
   \<and> map (\<lambda>(k, v). (k, map_option noteIdSet v))
        (folderMap (the (map_of (storageMap (snd (updateNote memUtils memDb ''S'' ''N'' (titleOnly ''x'')
           (snd (trashNote memDb ''S'' ''N'' cascadeWorld))))) ''S''))) =
       [(''/'', Some {}), (''/x'', Some {''N''}), (''/x/y'', Some {''M''})]
   \<and> map (\<lambda>(k, v). (k, tag_noteIdSet v))
        (tagMap (the (map_of (storageMap (snd (updateNote memUtils memDb ''S'' ''N'' (titleOnly ''x'')
           (snd (trashNote memDb ''S'' ''N'' cascadeWorld))))) ''S''))) = [(''t'', {''N'', ''M''})]"
  by (simp add: updateNote_def updateNote_draft_def trashNote_def trashNote_draft_def tagsWithoutNote_def
       scheduler_defs prog_defs mem_defs step_defs example_defs insert_commute)

text \<open>
  The invariant also breaks without a trashed note: \<^verbatim>\<open>moveNoteToOtherStorage\<close> with the
  storage of the note as the target (the case its last lines,
  \<^verbatim>\<open>if (originalStorageId !== targetStorageId)\<close>, provide for) computes the target's folder
  and tags from the state before the purge and writes them last, so the id of the purged
  note stays in the \<^verbatim>\<open>noteIdSet\<close> of its folder and of its tags.
\<close>

lemma moveNote_within_storage_keeps_purged_id:
  "fst (moveNoteToOtherStorage memUtils memDb ''S'' ''N'' ''S'' ''/x'' cascadeWorld) = Inr ()
   \<and> map fst (noteMap (the (map_of (storageMap (snd
        (moveNoteToOtherStorage memUtils memDb ''S'' ''N'' ''S'' ''/x'' cascadeWorld))) ''S''))) = [''M'', ''note:'']
   \<and> map (\<lambda>(k, v). (k, map_option noteIdSet v))
        (folderMap (the (map_of (storageMap (snd
           (moveNoteToOtherStorage memUtils memDb ''S'' ''N'' ''S'' ''/x'' cascadeWorld))) ''S''))) =
       [(''/'', Some {}), (''/x'', Some {''note:'', ''N''}), (''/x/y'', Some {''M''})]"
  by (simp add: moveNoteToOtherStorage_def moveNote_original_def moveNote_target_def targetTag_def
       putTags_def tagKey_def List.map_filter_def
       scheduler_defs prog_defs mem_defs step_defs example_defs)

text \<open>
  A rejected \<^verbatim>\<open>renameFolder\<close> leaves \<^verbatim>\<open>storageMap\<close> as it was: the one \<^verbatim>\<open>setStorageMap\<close> of
  the operation comes after the last \<^verbatim>\<open>await\<close>.
\<close>

lemma renameFolder_rejected_keeps_snapshot:
  assumes "renameFolder U D sid p q w = (Inl e, w')"
  shows "storageMap w' = storageMap w"
proof (cases "map_of (storageMap w) sid")
  case None
  with assms show ?thesis by (simp add: renameFolder_def)
next
  case (Some S)
  define ps where "ps = p # filter (\<lambda>k. startsWith k (p @ ''/'')) (map fst (folderMap S))"
  obtain r1 w1 where 1: "awaitAll (renameOne D sid p q) ps w = (r1, w1)"
    by (cases "awaitAll (renameOne D sid p q) ps w")
  have k1: "storageMap w1 = storageMap w"
    by (rule keepsSnapshotD [OF keeps_awaitAll 1]) (rule keeps_renameOne)
  obtain r2 w2 where 2: "dbCall sid (db_removeFolder D p) w1 = (r2, w2)"
    by (cases "dbCall sid (db_removeFolder D p) w1")
  have k2: "storageMap w2 = storageMap w1"
    by (rule keepsSnapshotD [OF keeps_dbCall 2])
  show ?thesis
  proof (cases "isFolderPathnameValid U p \<and> isFolderPathnameValid U q")
    case False
    with assms Some show ?thesis by (auto simp: renameFolder_def split: if_splits)
  next
    case True
    with assms Some have "await (awaitAll (renameOne D sid p q) ps)
            (\<lambda>refreshed. await (dbCall sid (db_removeFolder D p)) (\<lambda>_ w'.
              (Inr (),
               queued sid
                 (modifyStorage sid (deleteFolders ps)
                    (modifyStorage (storage_id S) (renameFolder_folders (map fst refreshed))
                       (modifyStorage (storage_id S)
                          (renameFolder_notes S (concat (map snd refreshed))) w')))))) w = (Inl e, w')"
      by (simp add: renameFolder_def Let_def ps_def del: awaitAll.simps)
    with 1 2 k1 k2 show ?thesis
      by (auto simp: await_def split: sum.splits)
  qed
qed

text \<open>
  C2 (\<^verbatim>\<open>renameFolder\<close> is all-or-nothing). The checks of a folder and the writes for it are
  in one function, mapped over the folder and its sub-folders and awaited with
  \<^verbatim>\<open>Promise.all\<close>: the rejection of one does not stop the others. Renaming \<^verbatim>\<open>/a\<close> to the
  existing \<^verbatim>\<open>/b\<close> in storage \<^verbatim>\<open>S\<close> is rejected for \<^verbatim>\<open>/a\<close> itself and \<^verbatim>\<open>storageMap\<close> is
  unchanged, but the function for the sub-folder \<^verbatim>\<open>/a/x\<close> passes its checks: the document
  store has the new folder \<^verbatim>\<open>/b/x\<close>, and note \<^verbatim>\<open>M\<close> of \<^verbatim>\<open>/a/x\<close> is filed under it.
\<close>

theorem C2_renameFolder_rejected_after_writes:
  "fst (renameFolder memUtils memDb ''S'' ''/a'' ''/b'' renameWorld) =
     Inl (UnprocessableEntityError ''this folder already exists `/b`'')
   \<and> storageMap (snd (renameFolder memUtils memDb ''S'' ''/a'' ''/b'' renameWorld)) = storageMap renameWorld
   \<and> m_folders (dbs renameWorld ''S'') = [''/'', ''/a'', ''/a/x'', ''/b'']
   \<and> m_folders (dbs (snd (renameFolder memUtils memDb ''S'' ''/a'' ''/b'' renameWorld)) ''S'') =
       [''/'', ''/a'', ''/a/x'', ''/b'', ''/b/x'']
   \<and> map (\<lambda>(k, n). (k, folderPathname n)) (m_notes (dbs renameWorld ''S'')) = [(''M'', ''/a/x'')]
   \<and> map (\<lambda>(k, n). (k, folderPathname n))
        (m_notes (dbs (snd (renameFolder memUtils memDb ''S'' ''/a'' ''/b'' renameWorld)) ''S'')) =
       [(''M'', ''/b/x'')]"
  by (simp add: renameFolder_def renameOne_def onlyFolderPathname_def renameFolder_notes_def
       renameFolder_folders_def deleteFolders_def prog_defs mem_defs step_defs example_defs)

section \<open>removeFolder\<close>
















section \<open>moveNoteToOtherStorage\<close>



section \<open>createNote and purgeNote\<close>

lemma tagsByKey_result:
  assumes "list_all2 (\<lambda>t r. tag_noteIdSet r = F t \<and> (\<forall>i. tag_id r = Some i \<longrightarrow> replaceFirst pfx i = t)) ts rs"
    and "tagsByKey pfx rs acc = Inr m"
  shows "(\<forall>k. (map_of m k = None) = (map_of acc k = None \<and> k \<notin> set ts))
       \<and> (\<forall>k r. map_of m k = Some r \<longrightarrow> (k \<in> set ts \<and> tag_noteIdSet r = F k) \<or> map_of acc k = Some r)
       \<and> (distinct (map fst acc) \<longrightarrow> distinct (map fst m))"
  using assms
proof (induction ts rs arbitrary: acc rule: list_all2_induct)
  case Nil
  then show ?case by simp
next
  case (Cons t ts r rs)
  from Cons.prems Cons.hyps(1) obtain i where i: "tag_id r = Some i" and k: "replaceFirst pfx i = t"
    and rest: "tagsByKey pfx rs (AList.update t r acc) = Inr m"
    by (auto split: option.splits)
  from Cons.IH [OF rest] Cons.hyps(1) show ?case
    by (auto simp: update_conv distinct_update split: if_splits)
qed

lemma purgedTags_result:
  assumes "\<forall>t \<in> set ts. map_of (tagMap S1) t \<noteq> None"
  shows "\<exists>m. purgedTags S1 i ts acc = Inr m
     \<and> (\<forall>k. map_of m k =
            (if k \<in> set ts
             then map_option (\<lambda>e. e\<lparr>tag_noteIdSet := tag_noteIdSet e - {i}\<rparr>) (map_of (tagMap S1) k)
             else map_of acc k))
     \<and> (distinct (map fst acc) \<longrightarrow> distinct (map fst m))"
  using assms
proof (induction ts arbitrary: acc)
  case Nil
  then show ?case by simp
next
  case (Cons t ts)
  then obtain e where e: "map_of (tagMap S1) t = Some e" by auto
  from Cons.prems have "\<forall>t \<in> set ts. map_of (tagMap S1) t \<noteq> None" by simp
  from Cons.IH [OF this, of "AList.update t (e\<lparr>tag_noteIdSet := tag_noteIdSet e - {i}\<rparr>) acc"]
  show ?case
    using e by (auto simp: update_conv distinct_update)
qed

text \<open>
  C6 (\<^verbatim>\<open>createNote\<close> then \<^verbatim>\<open>purgeNote\<close>). Let \<^verbatim>\<open>createNote\<close> return the note \<open>n\<close>, with an id
  that no \<^verbatim>\<open>noteIdSet\<close> of the storage held before, and let the document store purge \<open>n\<close>.
  The tags are filed by their ids (\<^verbatim>\<open>tag._id.replace(TAG_ID_PREFIX, '')\<close>), so the ids of the
  entries of \<^verbatim>\<open>tagMap\<close> and of the tags the store answers with are taken to give the names
  they are asked under; the folders the store answers \<^verbatim>\<open>getFoldersByPathnames\<close> with are
  among those asked for. Then \<^verbatim>\<open>purgeNote\<close> on the id of \<open>n\<close> returns, and every folder and
  every tag the storage had before \<^verbatim>\<open>createNote\<close> has the \<^verbatim>\<open>noteIdSet\<close> it had before; the
  folders and tags that \<^verbatim>\<open>createNote\<close> added to the index have an empty one.
\<close>

theorem C6_createNote_purgeNote_round_trip:
  assumes S: "map_of (storageMap w) sid = Some S"
    and created: "createNote U D sid props w = (Inr (Some n), w1)"
    and purge: "db_purgeNote D (note_id n) (dbs w1 sid) = (Inr (), d)"
    and fresh_f: "\<forall>p f. lookupFolder (folderMap S) p = Some f \<longrightarrow> note_id n \<notin> noteIdSet f"
    and fresh_t: "\<forall>t e. map_of (tagMap S) t = Some e \<longrightarrow> note_id n \<notin> tag_noteIdSet e"
    and keys: "\<forall>t e. map_of (tagMap S) t = Some e \<longrightarrow>
                 (\<forall>i. tag_id e = Some i \<longrightarrow> replaceFirst (TAG_ID_PREFIX U) i = t)"
    and storeTags: "\<forall>t d x d'. db_getTag D t d = (Inr (Some x), d') \<longrightarrow>
                 (\<forall>i. tag_id x = Some i \<longrightarrow> replaceFirst (TAG_ID_PREFIX U) i = t)"
    and storeFolders: "\<forall>ps d fs d'. db_getFoldersByPathnames D ps d = (Inr fs, d') \<longrightarrow>
                 folder_pathname ` set fs \<subseteq> set ps"
  shows "\<exists>w2 S2. purgeNote D sid (note_id n) w1 = (Inr (), w2) \<and> map_of (storageMap w2) sid = Some S2
     \<and> (\<forall>p f. lookupFolder (folderMap S) p = Some f \<longrightarrow>
           map_option noteIdSet (lookupFolder (folderMap S2) p) = Some (noteIdSet f))
     \<and> (\<forall>p f. lookupFolder (folderMap S) p = None \<longrightarrow> lookupFolder (folderMap S2) p = Some f \<longrightarrow>
           noteIdSet f = {})
     \<and> (\<forall>t e. map_of (tagMap S) t = Some e \<longrightarrow>
           map_option tag_noteIdSet (map_of (tagMap S2) t) = Some (tag_noteIdSet e))
     \<and> (\<forall>t e. map_of (tagMap S) t = None \<longrightarrow> map_of (tagMap S2) t = Some e \<longrightarrow>
           tag_noteIdSet e = {})"
proof -
  define nid where "nid = note_id n"
  define fp where "fp = folderPathname n"
  define old where "old = (\<lambda>t. case map_of (tagMap S) t of None \<Rightarrow> {} | Some e \<Rightarrow> tag_noteIdSet e)"
  \<comment> \<open>the steps of \<^verbatim>\<open>createNote\<close>\<close>
  from created S obtain c wa ps wb f wc mt wd where
    c: "dbCall sid (db_createNote D props) w = (Inr c, wa)" and n: "n = populate sid c" and
    ps: "dbCall sid (db_getFoldersByPathnames D (parentFolderPathnamesToCheck U S (folderPathname n))) wa = (Inr ps, wb)" and
    f: "folderWithNote D sid S n wb = (Inr f, wc)" and
    mt: "modifiedTagsWithNote U D sid S n wc = (Inr mt, wd)" and
    w1: "w1 = queued sid (modifyStorage sid (createNote_draft S n ps f mt) wd)"
    by (auto simp: createNote_def Let_def elim!: awaitE)
  from mt obtain rs where rs: "awaitAll (tagWithNote D sid S n) (tags n) wc = (Inr rs, wd)"
    and byKey: "tagsByKey (TAG_ID_PREFIX U) rs [] = Inr mt"
    by (auto simp: modifiedTagsWithNote_def ret_def throw_def elim!: awaitE split: sum.splits)
  have sm_a: "storageMap wa = storageMap w" using c by (auto elim: dbCallE)
  from ps obtain dps where dps: "db_getFoldersByPathnames D (parentFolderPathnamesToCheck U S fp) (dbs wa sid) = (Inr ps, dps)"
    and sm_b: "storageMap wb = storageMap wa"
    by (auto simp: fp_def elim: dbCallE)
  have sm_c: "storageMap wc = storageMap wb" and f_ids: "noteIdSet f = insert nid
           (case lookupFolder (folderMap S) fp of None \<Rightarrow> {} | Some f0 \<Rightarrow> noteIdSet f0)"
    using folderWithNote_result [OF f] by (simp_all add: nid_def fp_def)
  have all: "storageMap wd = storageMap wc \<and>
     list_all2 (\<lambda>t r. tag_noteIdSet r = insert nid (old t)
                  \<and> (\<forall>i. tag_id r = Some i \<longrightarrow> replaceFirst (TAG_ID_PREFIX U) i = t)) (tags n) rs"
    by (rule awaitAll_Inr [OF rs]) (use tagWithNote_result [OF _ keys storeTags] in \<open>auto simp: nid_def old_def\<close>)
  then have sm_d: "storageMap wd = storageMap w"
    by (simp add: sm_a sm_b sm_c)
  from tagsByKey_result [OF all [THEN conjunct2] byKey]
  have mt_None: "\<And>k. (map_of mt k = None) = (k \<notin> set (tags n))"
    and mt_Some: "\<And>k r. map_of mt k = Some r \<Longrightarrow> k \<in> set (tags n) \<and> tag_noteIdSet r = insert nid (old k)"
    and mt_d: "distinct (map fst mt)"
    by auto
  \<comment> \<open>the storage after \<^verbatim>\<open>createNote\<close>\<close>
  have Sd: "map_of (storageMap wd) sid = Some S" using S by (simp add: sm_d)
  from queued_index [OF modifyStorage_at [OF Sd, of "createNote_draft S n ps f mt"]]
  obtain S1 where S1: "map_of (storageMap w1) sid = Some S1"
    and nm1: "noteMap S1 = AList.update nid n (noteMap S)"
    and fm1: "folderMap S1 = AList.update fp (Some f) (putFolders (emptyFolders ps) (folderMap S))"
    and tm1: "tagMap S1 = spread (tagMap S) mt"
    by (auto simp: w1 createNote_draft_def nid_def fp_def)
  have tm1_map: "map_of (tagMap S1) k = (case map_of mt k of None \<Rightarrow> map_of (tagMap S) k | Some r \<Rightarrow> Some r)" for k
    by (simp add: tm1 map_of_spread [OF mt_d])
  have note1: "map_of (noteMap S1) nid = Some n" by (simp add: nm1 update_conv)
  have folder1: "lookupFolder (folderMap S1) fp = Some f" by (simp add: fm1 lookupFolder_def update_conv)
  have tags1: "\<forall>t \<in> set (tags n). map_of (tagMap S1) t \<noteq> None"
    using mt_None by (auto simp: tm1_map split: option.splits)
  \<comment> \<open>the steps of \<^verbatim>\<open>purgeNote\<close>\<close>
  from purgedTags_result [OF tags1, of nid "[]"] obtain m2 where
    m2: "purgedTags S1 nid (tags n) [] = Inr m2"
    and m2_map: "\<And>k. map_of m2 k =
            (if k \<in> set (tags n)
             then map_option (\<lambda>e. e\<lparr>tag_noteIdSet := tag_noteIdSet e - {nid}\<rparr>) (map_of (tagMap S1) k)
             else None)"
    and m2_d: "distinct (map fst m2)"
    by auto
  define wp where "wp = w1\<lparr>dbs := (dbs w1)(sid := d)\<rparr>"
  define draft where "draft = purgeNote_draft S1 (AList.delete nid (noteMap S1)) fp
                                (f\<lparr>noteIdSet := noteIdSet f - {nid}\<rparr>) m2"
  have run: "purgeNote D sid nid w1 = (Inr (), queued sid (modifyStorage sid draft wp))"
    using S1 purge note1 folder1 m2
    by (simp add: purgeNote_def await_def dbCall_def nid_def [symmetric] fp_def [symmetric]
          wp_def draft_def)
  have Sp: "map_of (storageMap wp) sid = Some S1" using S1 by (simp add: wp_def)
  from queued_index [OF modifyStorage_at [OF Sp, of draft]]
  obtain S2 where S2: "map_of (storageMap (queued sid (modifyStorage sid draft wp))) sid = Some S2"
    and fm2: "folderMap S2 = AList.update fp (Some (f\<lparr>noteIdSet := noteIdSet f - {nid}\<rparr>)) (folderMap S1)"
    and tm2: "tagMap S2 = spread (tagMap S1) m2"
    by (auto simp: draft_def purgeNote_draft_def)
  have tm2_map: "map_of (tagMap S2) k =
      (if k \<in> set (tags n)
       then map_option (\<lambda>e. e\<lparr>tag_noteIdSet := tag_noteIdSet e - {nid}\<rparr>) (map_of (tagMap S1) k)
       else map_of (tagMap S) k)" for k
    using mt_None [of k] by (auto simp: tm2 map_of_spread [OF m2_d] m2_map tm1_map split: option.splits)
  \<comment> \<open>folders\<close>
  have parents_new: "p \<notin> folder_pathname ` set (emptyFolders ps)" if "lookupFolder (folderMap S) p = Some g" for p g
  proof -
    from storeFolders dps have "folder_pathname ` set ps \<subseteq> set (parentFolderPathnamesToCheck U S fp)" by blast
    with that show ?thesis
      by (auto simp: emptyFolders_pathnames parentFolderPathnamesToCheck_def)
  qed
  have r1: "map_option noteIdSet (lookupFolder (folderMap S2) p) = Some (noteIdSet g)"
    if g: "lookupFolder (folderMap S) p = Some g" for p g
  proof (cases "p = fp")
    case True
    with g fresh_f show ?thesis
      by (auto simp: fm2 lookupFolder_def update_conv f_ids nid_def)
  next
    case False
    with g parents_new [OF g] show ?thesis
      by (simp add: fm2 fm1 lookupFolder_def update_conv putFolders_other)
  qed
  have r2: "noteIdSet g = {}"
    if none: "lookupFolder (folderMap S) p = None" and g: "lookupFolder (folderMap S2) p = Some g" for p g
  proof (cases "p = fp")
    case True
    with none g show ?thesis
      by (auto simp: fm2 lookupFolder_def update_conv f_ids)
  next
    case False
    with g have "map_of (putFolders (emptyFolders ps) (folderMap S)) p = Some (Some g)"
      by (auto simp: fm2 fm1 lookupFolder_def update_conv split: option.splits)
    from putFolders_empty_or_old [OF this] none show ?thesis
      by (auto simp: lookupFolder_def)
  qed
  \<comment> \<open>tags\<close>
  have r3: "map_option tag_noteIdSet (map_of (tagMap S2) t) = Some (tag_noteIdSet e)"
    if e: "map_of (tagMap S) t = Some e" for t e
  proof (cases "t \<in> set (tags n)")
    case True
    then obtain r where r: "map_of mt t = Some r" using mt_None [of t] by auto
    from mt_Some [OF r] e fresh_t have "tag_noteIdSet r - {nid} = tag_noteIdSet e"
      by (auto simp: old_def nid_def)
    with True r show ?thesis by (simp add: tm2_map tm1_map)
  next
    case False
    with e show ?thesis by (simp add: tm2_map)
  qed
  have r4: "tag_noteIdSet e = {}"
    if none: "map_of (tagMap S) t = None" and e: "map_of (tagMap S2) t = Some e" for t e
  proof (cases "t \<in> set (tags n)")
    case True
    then obtain r where r: "map_of mt t = Some r" using mt_None [of t] by auto
    from mt_Some [OF r] none have "tag_noteIdSet r - {nid} = {}"
      by (auto simp: old_def)
    with True r e show ?thesis by (auto simp: tm2_map tm1_map)
  next
    case False
    with none e show ?thesis by (simp add: tm2_map)
  qed
  show ?thesis
    using run S2 r1 r2 r3 r4 unfolding nid_def
    by (intro exI [of _ "queued sid (modifyStorage sid draft wp)"] exI [of _ S2]) simp
qed

theorem C6_createNote_purgeNote_round_trip_witness:
  "fst (createNote memUtils memDb ''S'' exProps cascadeWorld) =
     Inr (Some (populate ''S'' ((exNote ''note:'' ''/x/z'' [''t'', ''u''] False)\<lparr>title := ''x'', content := [], data := []\<rparr>)))
   \<and> (\<exists>w2 S2. purgeNote memDb ''S'' ''note:'' (snd (createNote memUtils memDb ''S'' exProps cascadeWorld)) = (Inr (), w2)
        \<and> map_of (storageMap w2) ''S'' = Some S2
        \<and> map_option noteIdSet (lookupFolder (folderMap S2) ''/x'') = Some {''N''}
        \<and> map_option noteIdSet (lookupFolder (folderMap S2) ''/x/y'') = Some {''M''}
        \<and> map_option tag_noteIdSet (map_of (tagMap S2) ''t'') = Some {''N'', ''M''})"
proof -
  define S0 where "S0 = exStorage ''S'' None
                [exNote ''N'' ''/x'' [''t''] False, exNote ''M'' ''/x/y'' [''t''] False]
                [exFolder ''/'' {}, exFolder ''/x'' {''N''}, exFolder ''/x/y'' {''M''}]
                [exTag ''t'' {''N'', ''M''}]"
  define n0 where "n0 = populate ''S'' ((exNote ''note:'' ''/x/z'' [''t'', ''u''] False)\<lparr>title := ''x'', content := [], data := []\<rparr>)"
  define w1 where "w1 = snd (createNote memUtils memDb ''S'' exProps cascadeWorld)"
  have nid: "note_id n0 = ''note:''"
    by (simp add: n0_def populate_def NoteDoc.defs PopulatedNoteDoc.defs exNote_def)
  have h1: "map_of (storageMap cascadeWorld) ''S'' = Some S0"
    by (simp add: S0_def cascadeWorld_def world0_def)
  have res: "fst (createNote memUtils memDb ''S'' exProps cascadeWorld) = Inr (Some n0)"
    by (simp add: createNote_def createNote_draft_def tagsByKey.simps exProps_def n0_def
          scheduler_defs prog_defs mem_defs step_defs example_defs)
  then have h2: "createNote memUtils memDb ''S'' exProps cascadeWorld = (Inr (Some n0), w1)"
    by (simp add: w1_def prod_eq_iff)
  have h3: "db_purgeNote memDb (note_id n0) (dbs w1 ''S'') =
              (Inr (), snd (db_purgeNote memDb (note_id n0) (dbs w1 ''S'')))"
    by (simp add: memDb_def)
  have h4: "\<forall>p f. lookupFolder (folderMap S0) p = Some f \<longrightarrow> note_id n0 \<notin> noteIdSet f"
    by (auto simp: nid S0_def example_defs lookupFolder_def populateFolder_def split: if_splits)
  have h5: "\<forall>t e. map_of (tagMap S0) t = Some e \<longrightarrow> note_id n0 \<notin> tag_noteIdSet e"
    by (auto simp: nid S0_def example_defs populateTag_def split: if_splits)
  have h6: "\<forall>t e. map_of (tagMap S0) t = Some e \<longrightarrow>
              (\<forall>i. tag_id e = Some i \<longrightarrow> replaceFirst (TAG_ID_PREFIX memUtils) i = t)"
    by (auto simp: S0_def example_defs populateTag_def memTagDoc_def memUtils_def split: if_splits)
  have h7: "\<forall>t d x d'. db_getTag memDb t d = (Inr (Some x), d') \<longrightarrow>
              (\<forall>i. tag_id x = Some i \<longrightarrow> replaceFirst (TAG_ID_PREFIX memUtils) i = t)"
    by (auto simp: memDb_def memTagDoc_def memUtils_def split: if_splits)
  have h8: "\<forall>ps d fs d'. db_getFoldersByPathnames memDb ps d = (Inr fs, d') \<longrightarrow>
              folder_pathname ` set fs \<subseteq> set ps"
    by (auto simp: memDb_def memFolderDoc_def)
  from C6_createNote_purgeNote_round_trip [OF h1 h2 h3 h4 h5 h6 h7 h8]
  obtain w2 S2 where run: "purgeNote memDb ''S'' ''note:'' w1 = (Inr (), w2)"
    and S2: "map_of (storageMap w2) ''S'' = Some S2"
    and folders: "\<And>p f. lookupFolder (folderMap S0) p = Some f \<Longrightarrow>
           map_option noteIdSet (lookupFolder (folderMap S2) p) = Some (noteIdSet f)"
    and tagsame: "\<And>t e. map_of (tagMap S0) t = Some e \<Longrightarrow>
           map_option tag_noteIdSet (map_of (tagMap S2) t) = Some (tag_noteIdSet e)"
    unfolding nid by blast
  have f1: "map_option noteIdSet (lookupFolder (folderMap S2) ''/x'') = Some {''N''}"
    by (rule folders [of "''/x''" "populateFolder (Some (memFolderDoc ''/x'')) ''/x'' {''N''}", simplified populateFolder_sel])
       (simp add: S0_def example_defs lookupFolder_def)
  have f2: "map_option noteIdSet (lookupFolder (folderMap S2) ''/x/y'') = Some {''M''}"
    by (rule folders [of "''/x/y''" "populateFolder (Some (memFolderDoc ''/x/y'')) ''/x/y'' {''M''}", simplified populateFolder_sel])
       (simp add: S0_def example_defs lookupFolder_def)
  have t1: "map_option tag_noteIdSet (map_of (tagMap S2) ''t'') = Some {''N'', ''M''}"
    by (rule tagsame [of "''t''" "populateTag (Some (memTagDoc ''t'')) {''N'', ''M''}", simplified populateTag_sel])
       (simp add: S0_def example_defs)
  show ?thesis
    using res run S2 f1 f2 t1 unfolding w1_def n0_def
    by (intro conjI exI [of _ w2] exI [of _ S2]) simp_all
qed

end
